theory Spec2Isabelle
  imports Complex_Main "HOL-Library.Word" "HOL-Library.Multiset" "HOL-Library.Char_ord"
    "HOL-Library.List_Lexorder"
begin

chapter \<open>The circuit model of QuantumComputation.cpp\<close>

section \<open>Failures\<close>

text \<open>
  The source leaves a member function in four ways other than by returning: it calls
  \<open>exit\<close> with a code, a C++ library call throws (\<open>std::map::at\<close>, \<open>std::stoi\<close>), a
  Python call made through pybind11 throws \<open>py::error_already_set\<close>, or it reads the
  last element of an empty vector. Each is a value of \<open>failure\<close>; a function
  that can fail returns \<open>failure + 'a\<close>.
\<close>

datatype py_exception = AttributeError | IndexError | KeyError

datatype failure =
    Exit nat
  | OutOfRange
  | ErrorAlreadySet py_exception
  | UndefinedBehaviour

text \<open>Lines written to \<open>std::cerr\<close> by paths that go on afterwards.\<close>

datatype message =
    DefineNotSupported
  | IfNotACreg string
  | SnapshotArgumentsMustBeQubits
  | FailedToImportInstruction string
  | What py_exception

section \<open>Registers and permutations\<close>

text \<open>
  \<open>registerMap\<close> is a \<open>std::map\<close> from the register's name to the pair (start index,
  size). It is kept as an association list in ascending key order, the order in which
  the source iterates over it. \<open>std::string\<close> compares bytewise, as the lexicographic
  order on \<open>char list\<close> does.
\<close>

type_synonym reg = "nat \<times> nat"
type_synonym registerMap = "(string \<times> reg) list"

text \<open>\<open>m.count(k)\<close> and \<open>m.find(k)\<close>.\<close>

definition reg_count :: "registerMap \<Rightarrow> string \<Rightarrow> bool" where
  "reg_count m k = (map_of m k \<noteq> None)"

text \<open>\<open>m.insert({k, v})\<close>: an existing key keeps its value.\<close>

fun reg_insert :: "string \<Rightarrow> reg \<Rightarrow> registerMap \<Rightarrow> registerMap" where
  "reg_insert k v [] = [(k, v)]"
| "reg_insert k v ((k', v') # m) =
     (if k = k' then (k', v') # m
      else if k < k' then (k, v) # (k', v') # m
      else (k', v') # reg_insert k v m)"

text \<open>\<open>m[k] = v\<close>: an existing key is overwritten.\<close>

fun reg_assign :: "string \<Rightarrow> reg \<Rightarrow> registerMap \<Rightarrow> registerMap" where
  "reg_assign k v [] = [(k, v)]"
| "reg_assign k v ((k', v') # m) =
     (if k = k' then (k', v) # m
      else if k < k' then (k, v) # (k', v') # m
      else (k', v') # reg_assign k v m)"

text \<open>Writing through the reference \<open>m.at(k)\<close>, for a key that is present.\<close>

definition reg_update :: "string \<Rightarrow> reg \<Rightarrow> registerMap \<Rightarrow> registerMap" where
  "reg_update k v m = map (\<lambda>(k', v'). if k' = k then (k', v) else (k', v')) m"

text \<open>\<open>m.erase(k)\<close>.\<close>

definition reg_erase :: "string \<Rightarrow> registerMap \<Rightarrow> registerMap" where
  "reg_erase k m = filter (\<lambda>(k', v'). k' \<noteq> k) m"

text \<open>
  A permutation is a \<open>std::map\<close> from qubit index to qubit index; \<open>insert\<close> keeps an
  existing entry, \<open>erase\<close> removes one.
\<close>

type_synonym permutationMap = "nat \<rightharpoonup> nat"

definition perm_insert :: "nat \<Rightarrow> nat \<Rightarrow> permutationMap \<Rightarrow> permutationMap" where
  "perm_insert k v p = (case p k of None \<Rightarrow> p(k \<mapsto> v) | Some w \<Rightarrow> p)"

definition perm_erase :: "nat \<Rightarrow> permutationMap \<Rightarrow> permutationMap" where
  "perm_erase k p = p(k := None)"

section \<open>The circuit\<close>

text \<open>
  The members of \<open>QuantumComputation\<close> that the functions below read and write, and
  \<open>cerr\<close>, the lines written to \<open>std::cerr\<close>. The class declaration
  (QuantumComputation.hpp) is not among the sources.

  Modelled from the spec: the declarations of \<open>nqubits\<close>, \<open>nclassics\<close> and
  \<open>max_controls\<close> are missing; the spec gives the two widths as non-negative integers,
  so they are \<open>nat\<close> here and no 16-bit wrap-around is modelled for their arithmetic.
  Where an importer reads \<open>nqubits\<close> from a text (\<open>is >> nqubits\<close>) it is read as an
  \<open>unsigned short\<close>, the type of the counters the source compares with it
  (\<open>for (unsigned short i = 0; i < nqubits; ++i)\<close>) and of the sizes it adds to it.
  \<open>max_controls\<close> is an \<open>int\<close>, as the \<open>ncontrols\<close> that \<open>readRealGateDescriptions\<close>
  passes to \<open>updateMaxControls\<close> is.

  The operations are kept polymorphic (\<open>'op\<close>): the register manager and the builder use
  an operation only through \<open>actsOn\<close>, \<open>setNqubits\<close>, \<open>isUnitary\<close> and \<open>getDD\<close>,
  which are members of the operation classes (not among the sources) and are passed as
  parameters.
\<close>

record 'op QuantumComputation =
  nqubits :: nat
  nclassics :: nat
  qregs :: registerMap
  cregs :: registerMap
  inputPermutation :: permutationMap
  outputPermutation :: permutationMap
  ops :: "'op list"
  max_controls :: int
  name :: string
  cerr :: "message list"

definition emptyQC :: "'op QuantumComputation" where
  "emptyQC = \<lparr> nqubits = 0, nclassics = 0, qregs = [], cregs = [],
     inputPermutation = Map.empty, outputPermutation = Map.empty, ops = [],
     max_controls = 0, name = [], cerr = [] \<rparr>"

section \<open>Register and permutation manager\<close>

text \<open>
  The loop of \<open>addQubitRegister\<close> that seeds \<open>j \<mapsto> j\<close> for
  \<open>j = nqubits + i\<close>, \<open>i < nq\<close>, in one permutation.
\<close>

definition seed_identity :: "nat \<Rightarrow> nat \<Rightarrow> permutationMap \<Rightarrow> permutationMap" where
  "seed_identity n nq p = fold (\<lambda>i. perm_insert (n + i) (n + i)) [0..<nq] p"

text \<open>
  \<open>addQubitRegister(nq, reg_name)\<close>. \<open>MAXN\<close> stands for \<open>dd::MAXN\<close>, a constant of the
  decision-diagram package.
\<close>

definition addQubitRegister ::
  "nat \<Rightarrow> (nat \<Rightarrow> 'op \<Rightarrow> 'op) \<Rightarrow> nat \<Rightarrow> string \<Rightarrow> 'op QuantumComputation
    \<Rightarrow> failure + 'op QuantumComputation" where
  "addQubitRegister MAXN setNqubits nq reg_name qc =
     (if nqubits qc + nq > MAXN then Inl (Exit 1)
      else
        (case
           (if reg_count (qregs qc) reg_name then
              (case map_of (qregs qc) reg_name of
                 None \<Rightarrow> Inl OutOfRange
               | Some (first, second) \<Rightarrow>
                   if first + second = nqubits qc
                   then Inr (reg_update reg_name (first, second + nq) (qregs qc))
                   else Inl (Exit 1))
            else Inr (reg_insert reg_name (nqubits qc, nq) (qregs qc)))
         of
           Inl e \<Rightarrow> Inl e
         | Inr qregs' \<Rightarrow>
             Inr (qc\<lparr> qregs := qregs',
                      inputPermutation := seed_identity (nqubits qc) nq (inputPermutation qc),
                      outputPermutation := seed_identity (nqubits qc) nq (outputPermutation qc),
                      nqubits := nqubits qc + nq,
                      ops := map (setNqubits (nqubits qc + nq)) (ops qc) \<rparr>)))"

text \<open>\<open>addClassicalRegister(nc, reg_name)\<close>.\<close>

definition addClassicalRegister ::
  "nat \<Rightarrow> string \<Rightarrow> 'op QuantumComputation \<Rightarrow> failure + 'op QuantumComputation" where
  "addClassicalRegister nc reg_name qc =
     (if reg_count (cregs qc) reg_name then Inl (Exit 1)
      else Inr (qc\<lparr> cregs := reg_insert reg_name (nclassics qc, nc) (cregs qc),
                    nclassics := nclassics qc + nc \<rparr>))"

text \<open>
  \<open>getQubitRegister(i)\<close>: the first register, in key order, whose range holds \<open>i\<close>;
  \<open>exit(1)\<close> when there is none.
\<close>

fun getQubitRegister :: "registerMap \<Rightarrow> nat \<Rightarrow> failure + string" where
  "getQubitRegister [] i = Inl (Exit 1)"
| "getQubitRegister ((reg_name, (start_idx, cnt)) # regs) i =
     (if i < start_idx then getQubitRegister regs i
      else if i \<ge> start_idx + cnt then getQubitRegister regs i
      else Inr reg_name)"

text \<open>\<open>getQubitRegisterAndIndex(i)\<close>; \<open>qregs[reg_name]\<close> finds the name just returned.\<close>

definition getQubitRegisterAndIndex :: "registerMap \<Rightarrow> nat \<Rightarrow> failure + (string \<times> nat)" where
  "getQubitRegisterAndIndex regs i =
     (case getQubitRegister regs i of
        Inl e \<Rightarrow> Inl e
      | Inr reg_name \<Rightarrow>
          (case map_of regs reg_name of
             None \<Rightarrow> Inr (reg_name, i)
           | Some (first, second) \<Rightarrow> Inr (reg_name, i - first)))"

text \<open>\<open>isIdleQubit(i)\<close>: no operation acts on \<open>i\<close>.\<close>

fun isIdleQubit_loop :: "('op \<Rightarrow> nat \<Rightarrow> bool) \<Rightarrow> 'op list \<Rightarrow> nat \<Rightarrow> bool" where
  "isIdleQubit_loop actsOn [] i = True"
| "isIdleQubit_loop actsOn (op # rest) i =
     (if actsOn op i then False else isIdleQubit_loop actsOn rest i)"

definition isIdleQubit :: "('op \<Rightarrow> nat \<Rightarrow> bool) \<Rightarrow> 'op QuantumComputation \<Rightarrow> nat \<Rightarrow> bool" where
  "isIdleQubit actsOn qc i = isIdleQubit_loop actsOn (ops qc) i"

text \<open>
  \<open>stripTrailingIdleQubits()\<close>. The loop variable \<open>i\<close> runs from \<open>nqubits - 1\<close> down to
  0; the first argument of the loop function is \<open>i + 1\<close>, so that 0 is the loop's end.
\<close>

fun stripTrailingIdleQubits_loop ::
  "('op \<Rightarrow> nat \<Rightarrow> bool) \<Rightarrow> (nat \<Rightarrow> 'op \<Rightarrow> 'op) \<Rightarrow> nat \<Rightarrow> 'op QuantumComputation
    \<Rightarrow> failure + 'op QuantumComputation" where
  "stripTrailingIdleQubits_loop actsOn setNqubits 0 qc = Inr qc"
| "stripTrailingIdleQubits_loop actsOn setNqubits (Suc i) qc =
     (if isIdleQubit actsOn qc i then
        (let qc1 = qc\<lparr> inputPermutation := perm_erase i (inputPermutation qc),
                        outputPermutation := perm_erase i (outputPermutation qc),
                        nqubits := nqubits qc - 1 \<rparr>
         in case getQubitRegister (qregs qc1) i of
              Inl e \<Rightarrow> Inl e
            | Inr reg_name \<Rightarrow>
                (case map_of (qregs qc1) reg_name of
                   None \<Rightarrow> Inl OutOfRange
                 | Some (first, second) \<Rightarrow>
                     stripTrailingIdleQubits_loop actsOn setNqubits i
                       (qc1\<lparr> qregs :=
                          (if second = 1 then reg_erase reg_name (qregs qc1)
                           else reg_update reg_name (first, second - 1) (qregs qc1)) \<rparr>)))
      else Inr (qc\<lparr> ops := map (setNqubits (nqubits qc)) (ops qc) \<rparr>))"

definition stripTrailingIdleQubits ::
  "('op \<Rightarrow> nat \<Rightarrow> bool) \<Rightarrow> (nat \<Rightarrow> 'op \<Rightarrow> 'op) \<Rightarrow> 'op QuantumComputation
    \<Rightarrow> failure + 'op QuantumComputation" where
  "stripTrailingIdleQubits actsOn setNqubits qc =
     stripTrailingIdleQubits_loop actsOn setNqubits (nqubits qc) qc"

section \<open>Functionality and simulation builder\<close>

text \<open>
  The decision-diagram package (\<open>dd::Package\<close>) is not among the sources. The builder
  is modelled against its interface: every call the builder makes is appended to a log,
  and the values the package returns (\<open>DDone\<close>, \<open>makeIdent\<close>, \<open>multiply\<close>, and the
  operation's \<open>getDD\<close>) are given by functions that may depend on the log so far, so that
  nothing is assumed about the package's state.
\<close>

datatype ('e, 'op) dd_call =
    UseMatrixNormalization bool
  | MakeIdent nat nat
  | GetDD 'op
  | Multiply 'e 'e
  | IncRef 'e
  | DecRef 'e
  | GarbageCollect

record ('e, 'op) Package =
  DDone :: 'e
  makeIdent :: "('e, 'op) dd_call list \<Rightarrow> nat \<Rightarrow> nat \<Rightarrow> 'e"
  multiply :: "('e, 'op) dd_call list \<Rightarrow> 'e \<Rightarrow> 'e \<Rightarrow> 'e"
  isUnitary :: "'op \<Rightarrow> bool"
  getDD :: "('e, 'op) dd_call list \<Rightarrow> 'op \<Rightarrow> int list \<Rightarrow> permutationMap \<Rightarrow> bool
             \<Rightarrow> 'e \<times> int list \<times> permutationMap"

text \<open>
  The loop \<open>for (auto& op : ops)\<close>, the same text in \<open>buildFunctionality\<close> and in
  \<open>simulate\<close>. Its state is the accumulator \<open>e\<close>, the scratch array \<open>line\<close>, the output
  permutation (both passed to \<open>getDD\<close> by reference) and the log.
\<close>

fun fold_ops ::
  "('e, 'op) Package \<Rightarrow> bool \<Rightarrow> 'op list
    \<Rightarrow> 'e \<times> int list \<times> permutationMap \<times> ('e, 'op) dd_call list
    \<Rightarrow> failure + ('e \<times> int list \<times> permutationMap \<times> ('e, 'op) dd_call list)" where
  "fold_ops dd executeSwaps [] s = Inr s"
| "fold_ops dd executeSwaps (op # rest) (e, line, perm, calls) =
     (if \<not> isUnitary dd op then Inl (Exit 1)
      else
        (case getDD dd calls op line perm executeSwaps of
           (fragment, line', perm') \<Rightarrow>
             (let calls1 = calls @ [GetDD op];
                  tmp = multiply dd calls1 fragment e
              in fold_ops dd executeSwaps rest
                   (tmp, line', perm',
                    calls1 @ [Multiply fragment e, IncRef tmp, DecRef e, GarbageCollect]))))"


text \<open>\<open>simulate(in, dd, executeSwaps)\<close>.\<close>

definition simulate ::
  "nat \<Rightarrow> int \<Rightarrow> 'e \<Rightarrow> ('e, 'op) Package \<Rightarrow> bool \<Rightarrow> 'op QuantumComputation
    \<Rightarrow> failure + ('e \<times> 'op QuantumComputation \<times> ('e, 'op) dd_call list)" where
  "simulate MAX_QUBITS LINE_DEFAULT in_edge dd executeSwaps qc =
     (let line = replicate MAX_QUBITS LINE_DEFAULT;
          e = in_edge;
          calls0 = [IncRef e]
      in case fold_ops dd executeSwaps (ops qc) (e, line, outputPermutation qc, calls0) of
           Inl err \<Rightarrow> Inl err
         | Inr (e', line', perm', calls') \<Rightarrow>
             Inr (e', qc\<lparr> outputPermutation := perm' \<rparr>, calls'))"







section \<open>Operations\<close>

text \<open>
  The gate kinds named in the source (\<open>Gate\<close> in the importers, \<open>qc::OpType\<close> in the
  Qiskit bridge; the enumerations themselves are in the missing headers). \<open>None\<close> of the
  source is \<open>None_gate\<close> here.
\<close>

datatype Gate =
    None_gate | I | H | X | Y | Z | S | Sdag | T | Tdag | V | Vdag | U3 | U2 | U1
  | RX | RY | RZ | SWAP | P | Pdag | Phase | SX | SXdag | iSWAP

text \<open>\<open>qc::Control\<close>: a qubit and \<open>Control::pos\<close> or \<open>Control::neg\<close>.\<close>

datatype polarity = pos | neg

datatype Control = Control nat polarity

text \<open>
  \<open>fp\<close> is the floating-point type of the source; a value is kept as the real number it
  stands for, and the quotient \<open>qc::PI / x\<close> is kept unevaluated (\<open>PiDividedBy x\<close>):
  in HOL \<open>x / 0 = 0\<close>, in the source it is an infinity.
\<close>

datatype fp = Value real | PiDividedBy real

text \<open>
  An operation is the record of the constructor call that built it: for
  \<open>StandardOperation\<close> the qubit count, the controls, the targets, the gate and the
  parameters as passed (the three-argument form \<open>(nqubits, controls, target)\<close> is the
  multi-controlled X); for \<open>NonUnitaryOperation\<close> one constructor per overload used.
\<close>

datatype Operation =
    StandardOperation nat "Control list" "nat list" Gate "fp list"
  | Measure nat nat nat
  | Barrier nat "nat list"
  | Snapshot nat "nat list" nat
  | ShowProbabilities nat
  | ClassicControlledOperation Operation nat

text \<open>\<open>emplace_back<T>(args...)\<close>: the new operation goes to the end of \<open>ops\<close>.\<close>

definition emplace_back :: "'op \<Rightarrow> 'op QuantumComputation \<Rightarrow> 'op QuantumComputation" where
  "emplace_back op qc = qc\<lparr> ops := ops qc @ [op] \<rparr>"

section \<open>Qiskit bridge\<close>

text \<open>
  The Python objects the bridge reads: a bit (\<open>register.name\<close>, \<open>index\<close>), an instruction
  (\<open>name\<close>, \<open>params\<close>, \<open>definition\<close>, which is \<open>None\<close> or a circuit) and a circuit
  (\<open>qubits\<close>, \<open>clbits\<close>, \<open>data\<close>).
\<close>

datatype Bit = Bit string nat

datatype Instruction = Instruction string "real list" "QuantumCircuit option"
  and QuantumCircuit =
    QuantumCircuit "Bit list" "Bit list" "(Instruction \<times> Bit list \<times> Bit list) list"

text \<open>
  A call of the bridge either returns the circuit or is left by an exception; the
  circuit as it is at that moment is kept with the failure, since a \<open>catch\<close> goes on
  with it.
\<close>

type_synonym bridge_result =
  "(failure \<times> Operation QuantumComputation) + Operation QuantumComputation"

definition nativelySupportedGates :: "string list" where
  "nativelySupportedGates =
     [''i'', ''id'', ''iden'', ''x'', ''y'', ''z'', ''h'', ''s'', ''sdg'', ''t'', ''tdg'', ''p'',
      ''u1'', ''rx'', ''ry'', ''rz'', ''u2'', ''u'', ''u3'', ''cx'', ''cy'', ''cz'', ''cp'', ''cu1'',
      ''ch'', ''crx'', ''cry'', ''crz'', ''cu3'', ''ccx'', ''swap'', ''cswap'', ''iswap'', ''sx'',
      ''sxdg'', ''csx'', ''mcx_gray'', ''mcx_recursive'', ''mcx_vchain'', ''mcphase'', ''mcrx'',
      ''mcry'', ''mcrz'']"

text \<open>
  The loop \<open>for (const auto qubit: qargs)\<close> that resolves every argument with
  \<open>getIndexFromQubitRegister\<close>. That member is not among the sources and is a parameter
  (\<open>getIndex\<close>), as is \<open>getIndexFromClassicalRegister\<close>.
\<close>

fun resolve_qargs ::
  "(Operation QuantumComputation \<Rightarrow> string \<times> nat \<Rightarrow> failure + nat)
    \<Rightarrow> Operation QuantumComputation \<Rightarrow> Bit list \<Rightarrow> failure + nat list" where
  "resolve_qargs getIndex qc [] = Inr []"
| "resolve_qargs getIndex qc (Bit qreg qidx # rest) =
     (case getIndex qc (qreg, qidx) of
        Inl e \<Rightarrow> Inl e
      | Inr target \<Rightarrow>
          (case resolve_qargs getIndex qc rest of
             Inl e \<Rightarrow> Inl e
           | Inr targets \<Rightarrow> Inr (target # targets)))"

text \<open>The parameters \<open>(lambda, phi, theta)\<close> read from \<open>params\<close> by its length.\<close>

fun qiskit_params :: "real list \<Rightarrow> real \<times> real \<times> real" where
  "qiskit_params [l] = (l, 0, 0)"
| "qiskit_params [ph, l] = (l, ph, 0)"
| "qiskit_params [th, ph, l] = (l, ph, th)"
| "qiskit_params ps = (0, 0, 0)"

text \<open>\<open>addQiskitOperation(type, qargs, params)\<close>.\<close>

definition addQiskitOperation ::
  "(Operation QuantumComputation \<Rightarrow> string \<times> nat \<Rightarrow> failure + nat)
    \<Rightarrow> Gate \<Rightarrow> Bit list \<Rightarrow> real list \<Rightarrow> Operation QuantumComputation \<Rightarrow> bridge_result" where
  "addQiskitOperation getIndex type qargs params qc =
     (case resolve_qargs getIndex qc qargs of
        Inl e \<Rightarrow> Inl (e, qc)
      | Inr qubits \<Rightarrow>
          if qubits = [] then Inl (UndefinedBehaviour, qc)
          else
            (case qiskit_params params of
               (lambda, phi, theta) \<Rightarrow>
                 Inr (emplace_back
                        (StandardOperation (nqubits qc)
                           (map (\<lambda>q. Control q pos) (butlast qubits)) [last qubits] type
                           [Value lambda, Value phi, Value theta]) qc)))"

text \<open>\<open>addTwoTargetQiskitOperation(type, qargs, params)\<close>.\<close>

definition addTwoTargetQiskitOperation ::
  "(Operation QuantumComputation \<Rightarrow> string \<times> nat \<Rightarrow> failure + nat)
    \<Rightarrow> Gate \<Rightarrow> Bit list \<Rightarrow> real list \<Rightarrow> Operation QuantumComputation \<Rightarrow> bridge_result" where
  "addTwoTargetQiskitOperation getIndex type qargs params qc =
     (case resolve_qargs getIndex qc qargs of
        Inl e \<Rightarrow> Inl (e, qc)
      | Inr qubits \<Rightarrow>
          if qubits = [] \<or> butlast qubits = [] then Inl (UndefinedBehaviour, qc)
          else
            (case qiskit_params params of
               (lambda, phi, theta) \<Rightarrow>
                 Inr (emplace_back
                        (StandardOperation (nqubits qc)
                           (map (\<lambda>q. Control q pos) (butlast (butlast qubits)))
                           [last (butlast qubits), last qubits] type
                           [Value lambda, Value phi, Value theta]) qc)))"

text \<open>Python's \<open>list.pop()\<close>, called \<open>n\<close> times on a copy of the list.\<close>

fun py_pop :: "nat \<Rightarrow> 'a list \<Rightarrow> py_exception + 'a list" where
  "py_pop 0 xs = Inr xs"
| "py_pop (Suc n) xs = (if xs = [] then Inl IndexError else py_pop n (butlast xs))"

text \<open>
  The locals of the \<open>mcx_vchain\<close> branch: \<open>size\<close> is \<open>qargs.size()\<close> stored in an
  \<open>unsigned short\<close>, \<open>ncontrols = (size+1)/2\<close> is computed in \<open>int\<close> and stored in an
  \<open>unsigned short\<close>, and the loop runs for \<open>i = 0\<close> while \<open>i < ncontrols - 2\<close> in \<open>int\<close>.
\<close>

definition mcx_vchain_size :: "Bit list \<Rightarrow> 16 word" where
  "mcx_vchain_size qargs = of_nat (length qargs)"

definition mcx_vchain_ncontrols :: "Bit list \<Rightarrow> 16 word" where
  "mcx_vchain_ncontrols qargs = of_nat ((unat (mcx_vchain_size qargs) + 1) div 2)"

definition mcx_vchain_pops :: "Bit list \<Rightarrow> nat" where
  "mcx_vchain_pops qargs = nat (int (unat (mcx_vchain_ncontrols qargs)) - 2)"

text \<open>
  The loops of \<open>importQiskitDefinition\<close> that fill \<open>qargMap\<close> and \<open>cargMap\<close>
  (\<open>def_qubits[i]\<close> raises \<open>IndexError\<close> past the end of the list) and that map an
  instruction's arguments through them (a missing key raises \<open>KeyError\<close>).
\<close>

fun fill_arg_map :: "Bit list \<Rightarrow> Bit list \<Rightarrow> (Bit \<rightharpoonup> Bit) \<Rightarrow> py_exception + (Bit \<rightharpoonup> Bit)" where
  "fill_arg_map def_bits [] m = Inr m"
| "fill_arg_map [] (a # args) m = Inl IndexError"
| "fill_arg_map (d # def_bits) (a # args) m = fill_arg_map def_bits args (m(d \<mapsto> a))"

fun map_args :: "(Bit \<rightharpoonup> Bit) \<Rightarrow> Bit list \<Rightarrow> py_exception + Bit list" where
  "map_args m [] = Inr []"
| "map_args m (b # bs) =
     (case m b of
        None \<Rightarrow> Inl KeyError
      | Some b' \<Rightarrow> (case map_args m bs of Inl e \<Rightarrow> Inl e | Inr bs' \<Rightarrow> Inr (b' # bs')))"

text \<open>
  \<open>emplaceQiskitOperation(instruction, qargs, cargs, params)\<close> and
  \<open>importQiskitDefinition(circ, qargs, cargs)\<close>, whose loop over \<open>circ.data\<close> is
  \<open>importQiskitDefinition_loop\<close>.
\<close>

fun emplaceQiskitOperation ::
  "(Operation QuantumComputation \<Rightarrow> string \<times> nat \<Rightarrow> failure + nat)
    \<Rightarrow> (Operation QuantumComputation \<Rightarrow> string \<times> nat \<Rightarrow> failure + nat)
    \<Rightarrow> Instruction \<Rightarrow> Bit list \<Rightarrow> Bit list \<Rightarrow> real list
    \<Rightarrow> Operation QuantumComputation \<Rightarrow> bridge_result"
and importQiskitDefinition ::
  "(Operation QuantumComputation \<Rightarrow> string \<times> nat \<Rightarrow> failure + nat)
    \<Rightarrow> (Operation QuantumComputation \<Rightarrow> string \<times> nat \<Rightarrow> failure + nat)
    \<Rightarrow> QuantumCircuit option \<Rightarrow> Bit list \<Rightarrow> Bit list
    \<Rightarrow> Operation QuantumComputation \<Rightarrow> bridge_result"
and importQiskitDefinition_loop ::
  "(Operation QuantumComputation \<Rightarrow> string \<times> nat \<Rightarrow> failure + nat)
    \<Rightarrow> (Operation QuantumComputation \<Rightarrow> string \<times> nat \<Rightarrow> failure + nat)
    \<Rightarrow> (Bit \<rightharpoonup> Bit) \<Rightarrow> (Bit \<rightharpoonup> Bit) \<Rightarrow> (Instruction \<times> Bit list \<times> Bit list) list
    \<Rightarrow> Operation QuantumComputation \<Rightarrow> bridge_result" where
  "emplaceQiskitOperation getQ getC (Instruction instructionName inst_params definition)
      qargs cargs params qc =
     (if instructionName = ''measure'' then
        (case (qargs, cargs) of
           ([], _) \<Rightarrow> Inl (ErrorAlreadySet IndexError, qc)
         | (_ # _, []) \<Rightarrow> Inl (ErrorAlreadySet IndexError, qc)
         | (Bit qreg qidx # _, Bit creg cidx # _) \<Rightarrow>
             (case getQ qc (qreg, qidx) of
                Inl e \<Rightarrow> Inl (e, qc)
              | Inr control \<Rightarrow>
                  (case getC qc (creg, cidx) of
                     Inl e \<Rightarrow> Inl (e, qc)
                   | Inr target \<Rightarrow> Inr (emplace_back (Measure (nqubits qc) control target) qc))))
      else if instructionName = ''barrier'' then
        (case resolve_qargs getQ qc qargs of
           Inl e \<Rightarrow> Inl (e, qc)
         | Inr targets \<Rightarrow> Inr (emplace_back (Barrier (nqubits qc) targets) qc))
      else if instructionName \<in> set nativelySupportedGates then
        (if instructionName = ''i'' \<or> instructionName = ''id'' \<or> instructionName = ''iden'' then
           addQiskitOperation getQ I qargs params qc
         else if instructionName = ''x'' \<or> instructionName = ''cx'' \<or> instructionName = ''ccx''
                 \<or> instructionName = ''mcx_gray'' then
           addQiskitOperation getQ X qargs params qc
         else if instructionName = ''y'' \<or> instructionName = ''cy'' then
           addQiskitOperation getQ Y qargs params qc
         else if instructionName = ''z'' \<or> instructionName = ''cz'' then
           addQiskitOperation getQ Z qargs params qc
         else if instructionName = ''h'' \<or> instructionName = ''ch'' then
           addQiskitOperation getQ H qargs params qc
         else if instructionName = ''s'' then
           addQiskitOperation getQ S qargs params qc
         else if instructionName = ''sdg'' then
           addQiskitOperation getQ Sdag qargs params qc
         else if instructionName = ''t'' then
           addQiskitOperation getQ T qargs params qc
         else if instructionName = ''tdg'' then
           addQiskitOperation getQ Tdag qargs params qc
         else if instructionName = ''rx'' \<or> instructionName = ''crx'' \<or> instructionName = ''mcrx'' then
           addQiskitOperation getQ RX qargs params qc
         else if instructionName = ''ry'' \<or> instructionName = ''cry'' \<or> instructionName = ''mcry'' then
           addQiskitOperation getQ RY qargs params qc
         else if instructionName = ''rz'' \<or> instructionName = ''crz'' \<or> instructionName = ''mcrz'' then
           addQiskitOperation getQ RZ qargs params qc
         else if instructionName = ''p'' \<or> instructionName = ''u1'' \<or> instructionName = ''cp''
                 \<or> instructionName = ''cu1'' \<or> instructionName = ''mcphase'' then
           addQiskitOperation getQ Phase qargs params qc
         else if instructionName = ''sx'' \<or> instructionName = ''csx'' then
           addQiskitOperation getQ SX qargs params qc
         else if instructionName = ''sxdg'' then
           addQiskitOperation getQ SXdag qargs params qc
         else if instructionName = ''u2'' then
           addQiskitOperation getQ U2 qargs params qc
         else if instructionName = ''u'' \<or> instructionName = ''u3'' \<or> instructionName = ''cu3'' then
           addQiskitOperation getQ U3 qargs params qc
         else if instructionName = ''swap'' \<or> instructionName = ''cswap'' then
           addTwoTargetQiskitOperation getQ SWAP qargs params qc
         else if instructionName = ''iswap'' then
           addTwoTargetQiskitOperation getQ iSWAP qargs params qc
         else if instructionName = ''mcx_recursive'' then
           (if length qargs \<le> 5 then addQiskitOperation getQ X qargs params qc
            else
              (case py_pop 1 qargs of
                 Inl e \<Rightarrow> Inl (ErrorAlreadySet e, qc)
               | Inr qargs_copy \<Rightarrow> addQiskitOperation getQ X qargs_copy params qc))
         else if instructionName = ''mcx_vchain'' then
           (case py_pop (mcx_vchain_pops qargs) qargs of
              Inl e \<Rightarrow> Inl (ErrorAlreadySet e, qc)
            | Inr qargs_copy \<Rightarrow> addQiskitOperation getQ X qargs_copy params qc)
         else Inr qc)
      else
        (case importQiskitDefinition getQ getC definition qargs cargs qc of
           Inl (ErrorAlreadySet e, qc') \<Rightarrow>
             Inr (qc'\<lparr> cerr := cerr qc' @ [FailedToImportInstruction instructionName, What e] \<rparr>)
         | Inl (e, qc') \<Rightarrow> Inl (e, qc')
         | Inr qc' \<Rightarrow> Inr qc'))"
| "importQiskitDefinition getQ getC None qargs cargs qc =
     Inl (ErrorAlreadySet AttributeError, qc)"
| "importQiskitDefinition getQ getC (Some (QuantumCircuit def_qubits def_clbits data))
      qargs cargs qc =
     (case fill_arg_map def_qubits qargs Map.empty of
        Inl e \<Rightarrow> Inl (ErrorAlreadySet e, qc)
      | Inr qargMap \<Rightarrow>
          (case fill_arg_map def_clbits cargs Map.empty of
             Inl e \<Rightarrow> Inl (ErrorAlreadySet e, qc)
           | Inr cargMap \<Rightarrow> importQiskitDefinition_loop getQ getC qargMap cargMap data qc))"
| "importQiskitDefinition_loop getQ getC qargMap cargMap [] qc = Inr qc"
| "importQiskitDefinition_loop getQ getC qargMap cargMap ((instruction, inst_qargs, inst_cargs) # rest) qc =
     (case map_args qargMap inst_qargs of
        Inl e \<Rightarrow> Inl (ErrorAlreadySet e, qc)
      | Inr mapped_qargs \<Rightarrow>
          (case map_args cargMap inst_cargs of
             Inl e \<Rightarrow> Inl (ErrorAlreadySet e, qc)
           | Inr mapped_cargs \<Rightarrow>
               (case instruction of
                  Instruction nm inst_params defn \<Rightarrow>
                    (case emplaceQiskitOperation getQ getC instruction mapped_qargs mapped_cargs
                            inst_params qc of
                       Inl e \<Rightarrow> Inl e
                     | Inr qc' \<Rightarrow>
                         importQiskitDefinition_loop getQ getC qargMap cargMap rest qc'))))"

section \<open>Input streams\<close>

text \<open>
  A \<open>std::istream\<close> is the text not yet read and the two state bits the importers
  depend on. Every input function first looks at the state (the sentry): on a stream
  that is not \<open>good()\<close> it sets \<open>failbit\<close> and reads nothing.
\<close>

record istream =
  buffer :: string
  eofbit :: bool
  failbit :: bool

definition good :: "istream \<Rightarrow> bool" where
  "good inp = (\<not> eofbit inp \<and> \<not> failbit inp)"

text \<open>A stream opened on a text: \<open>std::ifstream\<close> on a file, \<open>std::istringstream\<close> on a line.\<close>

definition istringstream :: "string \<Rightarrow> istream" where
  "istringstream str = \<lparr> buffer = str, eofbit = False, failbit = False \<rparr>"

text \<open>\<open>isspace\<close>, \<open>toupper\<close>, \<open>tolower\<close> and the decimal digits, in the "C" locale.\<close>

definition isspace :: "char \<Rightarrow> bool" where
  "isspace c = (c \<in> set [CHR '' '', CHR 0x09, CHR 0x0A, CHR 0x0B, CHR 0x0C, CHR 0x0D])"

definition toupper :: "char \<Rightarrow> char" where
  "toupper c =
     (case map_of (zip ''abcdefghijklmnopqrstuvwxyz'' ''ABCDEFGHIJKLMNOPQRSTUVWXYZ'') c of
        None \<Rightarrow> c
      | Some u \<Rightarrow> u)"

definition tolower :: "char \<Rightarrow> char" where
  "tolower c =
     (case map_of (zip ''ABCDEFGHIJKLMNOPQRSTUVWXYZ'' ''abcdefghijklmnopqrstuvwxyz'') c of
        None \<Rightarrow> c
      | Some l \<Rightarrow> l)"

definition is_digit :: "char \<Rightarrow> bool" where
  "is_digit c = (c \<in> set ''0123456789'')"

definition digit_value :: "char \<Rightarrow> nat" where
  "digit_value c = of_char c - of_char (CHR ''0'')"

definition digits_value :: "string \<Rightarrow> nat" where
  "digits_value ds = foldl (\<lambda>n c. 10 * n + digit_value c) 0 ds"

text \<open>
  \<open>is >> str\<close> for a \<open>std::string\<close>: leading white space is skipped, then the
  characters up to the next white space are the word. When nothing but white space is
  left, both bits are set and the string keeps its old value (\<open>None\<close>); when the word
  runs to the end of the text, \<open>eofbit\<close> is set.
\<close>

definition extract_string :: "istream \<Rightarrow> string option \<times> istream" where
  "extract_string inp =
     (if \<not> good inp then (None, inp\<lparr> failbit := True \<rparr>)
      else
        (let rest = dropWhile isspace (buffer inp) in
         if rest = [] then (None, inp\<lparr> buffer := [], eofbit := True, failbit := True \<rparr>)
         else
           (let word = takeWhile (\<lambda>c. \<not> isspace c) rest;
                rest' = dropWhile (\<lambda>c. \<not> isspace c) rest
            in (Some word, inp\<lparr> buffer := rest', eofbit := (rest' = []) \<rparr>))))"

text \<open>\<open>is.ignore(std::numeric_limits<std::streamsize>::max(), '\n')\<close>.\<close>

definition ignore_line :: "istream \<Rightarrow> istream" where
  "ignore_line inp =
     (if \<not> good inp then inp\<lparr> failbit := True \<rparr>
      else
        (let rest = dropWhile (\<lambda>c. c \<noteq> CHR 0x0A) (buffer inp) in
         if rest = [] then inp\<lparr> buffer := [], eofbit := True \<rparr>
         else inp\<lparr> buffer := tl rest \<rparr>))"

text \<open>
  \<open>std::getline(is, str)\<close>: the text up to the next newline, which is consumed; it fails
  when no character at all could be extracted. The result is \<open>None\<close> when the call
  failed.
\<close>

definition getline :: "istream \<Rightarrow> string option \<times> istream" where
  "getline inp =
     (if \<not> good inp then (None, inp\<lparr> failbit := True \<rparr>)
      else if buffer inp = [] then (None, inp\<lparr> eofbit := True, failbit := True \<rparr>)
      else
        (let line = takeWhile (\<lambda>c. c \<noteq> CHR 0x0A) (buffer inp);
             rest = dropWhile (\<lambda>c. c \<noteq> CHR 0x0A) (buffer inp)
         in if rest = [] then (Some line, inp\<lparr> buffer := [], eofbit := True \<rparr>)
            else (Some line, inp\<lparr> buffer := tl rest \<rparr>)))"

text \<open>
  \<open>is >> n\<close> for an unsigned integer \<open>n\<close> whose largest value is \<open>limit\<close>, with the
  flags of a fresh stream (decimal, white space skipped). After the white space an
  optional \<open>+\<close> or \<open>-\<close> is read, then the decimal digits. When the sentry fails \<open>n\<close>
  keeps its value; when no digit follows, 0 is stored and \<open>failbit\<close> is set; a magnitude
  over the limit stores the limit and sets \<open>failbit\<close>; a magnitude within the limit after
  \<open>-\<close> is negated in the type of \<open>n\<close>, that is modulo \<open>limit + 1\<close>.
\<close>

datatype extracted = Unchanged | Stored nat

definition extract_unsigned :: "nat \<Rightarrow> istream \<Rightarrow> extracted \<times> istream" where
  "extract_unsigned limit inp =
     (if \<not> good inp then (Unchanged, inp\<lparr> failbit := True \<rparr>)
      else
        (let rest = dropWhile isspace (buffer inp) in
         if rest = [] then (Unchanged, inp\<lparr> buffer := [], eofbit := True, failbit := True \<rparr>)
         else
           (let negative = (hd rest = CHR ''-'');
                field = (if hd rest = CHR ''+'' \<or> hd rest = CHR ''-'' then tl rest else rest);
                ds = takeWhile is_digit field;
                rest' = dropWhile is_digit field;
                inp' = inp\<lparr> buffer := rest', eofbit := (rest' = []) \<rparr>
            in if ds = [] then (Stored 0, inp'\<lparr> failbit := True \<rparr>)
               else if digits_value ds > limit then (Stored limit, inp'\<lparr> failbit := True \<rparr>)
               else if negative then
                 (Stored ((limit + 1 - digits_value ds) mod (limit + 1)), inp')
               else (Stored (digits_value ds), inp'))))"

section \<open>REAL import: the header\<close>

text \<open>
  Modelled from the spec: \<open>updateMaxControls\<close> is defined in the missing header; the
  spec has \<open>maxControlCount\<close> hold the "largest control-qubit count observed", so the
  call keeps the larger of its argument and the stored value.
\<close>

definition updateMaxControls :: "int \<Rightarrow> 'op QuantumComputation \<Rightarrow> 'op QuantumComputation" where
  "updateMaxControls ncontrols qc = qc\<lparr> max_controls := max ncontrols (max_controls qc) \<rparr>"

text \<open>
  The loop of \<open>.VARIABLES\<close>: \<open>k\<close> iterations are left and \<open>i\<close> is the loop variable; a
  failed read leaves \<open>variable\<close> as it was.
\<close>

fun read_variables ::
  "nat \<Rightarrow> nat \<Rightarrow> string \<Rightarrow> istream \<Rightarrow> 'op QuantumComputation
    \<Rightarrow> string \<times> istream \<times> 'op QuantumComputation" where
  "read_variables 0 i variable inp qc = (variable, inp, qc)"
| "read_variables (Suc k) i variable inp qc =
     (case extract_string inp of
        (r, inp') \<Rightarrow>
          (let variable' = (case r of None \<Rightarrow> variable | Some w \<Rightarrow> w)
           in read_variables k (Suc i) variable' inp'
                (qc\<lparr> qregs := reg_insert variable' (i, 1) (qregs qc),
                     cregs := reg_insert (''c_'' @ variable') (i, 1) (cregs qc),
                     inputPermutation := perm_insert i i (inputPermutation qc),
                     outputPermutation := perm_insert i i (outputPermutation qc) \<rparr>)))"

text \<open>
  The loop of \<open>.DEFINE\<close>, which skips lines until it reads \<open>.ENDDEFINE\<close>. It never ends
  on a text without that word, so it is given fuel; \<open>None\<close> is "did not return".
\<close>

fun skip_define :: "nat \<Rightarrow> string \<Rightarrow> istream \<Rightarrow> (string \<times> istream) option" where
  "skip_define 0 cmd inp = None"
| "skip_define (Suc fuel) cmd inp =
     (if cmd = ''.ENDDEFINE'' then Some (cmd, inp)
      else
        (case extract_string (ignore_line inp) of
           (r, inp') \<Rightarrow>
             skip_define fuel (map toupper (case r of None \<Rightarrow> cmd | Some w \<Rightarrow> w)) inp'))"

text \<open>
  \<open>readRealHeader(is)\<close>. The loop \<open>while (true)\<close> ends only at \<open>.BEGIN\<close> or in
  \<open>exit(1)\<close>; at the end of the text every read fails, \<open>cmd\<close> keeps its value and the
  loop goes round for ever. The function takes fuel, one unit per iteration, and
  \<open>None\<close> is "did not return". \<open>cmd\<close> and \<open>variable\<close> are the two locals that outlive
  an iteration.
\<close>

fun readRealHeader ::
  "nat \<Rightarrow> string \<Rightarrow> string \<Rightarrow> istream \<Rightarrow> 'op QuantumComputation
    \<Rightarrow> (failure + istream \<times> 'op QuantumComputation) option" where
  "readRealHeader 0 cmd variable inp qc = None"
| "readRealHeader (Suc fuel) cmd variable inp qc =
     (case extract_string inp of
        (r, inp1) \<Rightarrow>
          (let cmd' = map toupper (case r of None \<Rightarrow> cmd | Some w \<Rightarrow> w) in
           if cmd' = [] then Some (Inl UndefinedBehaviour)
           else if hd cmd' = CHR ''#'' then
             readRealHeader fuel cmd' variable (ignore_line inp1) qc
           else if hd cmd' \<noteq> CHR ''.'' then Some (Inl (Exit 1))
           else if cmd' = ''.BEGIN'' then Some (Inr (inp1, qc))
           else if cmd' = ''.NUMVARS'' then
             (case extract_unsigned 65535 inp1 of
                (v, inp2) \<Rightarrow>
                  (let n = (case v of Unchanged \<Rightarrow> nqubits qc | Stored m \<Rightarrow> m)
                   in readRealHeader fuel cmd' variable inp2
                        (qc\<lparr> nqubits := n, nclassics := n \<rparr>)))
           else if cmd' = ''.VARIABLES'' then
             (case read_variables (nqubits qc) 0 variable inp1 qc of
                (variable', inp2, qc') \<Rightarrow> readRealHeader fuel cmd' variable' inp2 qc')
           else if cmd' = ''.CONSTANTS'' then
             readRealHeader fuel cmd' variable (ignore_line inp1) qc
           else if cmd' = ''.INPUTS'' \<or> cmd' = ''.OUTPUTS'' \<or> cmd' = ''.GARBAGE''
                   \<or> cmd' = ''.VERSION'' \<or> cmd' = ''.INPUTBUS'' \<or> cmd' = ''.OUTPUTBUS'' then
             readRealHeader fuel cmd' variable (ignore_line inp1) qc
           else if cmd' = ''.DEFINE'' then
             (case skip_define fuel cmd' inp1 of
                None \<Rightarrow> None
              | Some (cmd'', inp2) \<Rightarrow>
                  readRealHeader fuel cmd'' variable inp2
                    (qc\<lparr> cerr := cerr qc @ [DefineNotSupported] \<rparr>))
           else Some (Inl (Exit 1))))"

section \<open>REAL import: the gate lines\<close>

text \<open>
  \<open>gateRegex\<close> is
  \<^verbatim>\<open>(r[xyz]|q|[0a-z](?:[+i])?)(\d+)?(?::([-+]?[0-9]+[.]?[0-9]*(?:[eE][-+]?[0-9]+)?))?\<close>
  and \<open>std::regex_match\<close> matches the whole word. The three groups are found from left
  to right: the identifier (\<open>r\<close> with \<open>x\<close>, \<open>y\<close> or \<open>z\<close>; otherwise one of
  \<open>0\<close>, \<open>a\<close> to \<open>z\<close>, with a following \<open>+\<close> or \<open>i\<close>, which nothing else could
  match), the longest run of digits, and after a colon a literal that runs to the end
  of the word.
\<close>

definition match_identifier :: "string \<Rightarrow> (string \<times> string) option" where
  "match_identifier cmd =
     (case cmd of
        [] \<Rightarrow> None
      | c0 # rest \<Rightarrow>
          (case rest of
             [] \<Rightarrow> if c0 \<in> set ''0abcdefghijklmnopqrstuvwxyz'' then Some ([c0], []) else None
           | c1 # rest' \<Rightarrow>
               if c0 = CHR ''r'' \<and> c1 \<in> set ''xyz'' then Some ([c0, c1], rest')
               else if c0 \<in> set ''0abcdefghijklmnopqrstuvwxyz'' then
                 (if c1 \<in> set ''+i'' then Some ([c0, c1], rest') else Some ([c0], rest))
               else None))"

text \<open>
  The literal \<open>[-+]?[0-9]+[.]?[0-9]*(?:[eE][-+]?[0-9]+)?\<close>, split into its parts: whether
  it is negative, the digits before and after the point, and the exponent (whether it is
  negative, its digits) when there is one.
\<close>

definition strip_sign :: "string \<Rightarrow> bool \<times> string" where
  "strip_sign s =
     (case s of
        [] \<Rightarrow> (False, s)
      | c # r \<Rightarrow> if c = CHR ''-'' then (True, r) else if c = CHR ''+'' then (False, r) else (False, s))"

definition parse_literal :: "string \<Rightarrow> (bool \<times> string \<times> string \<times> (bool \<times> string) option) option" where
  "parse_literal s =
     (case strip_sign s of
        (negative, s1) \<Rightarrow>
          (let ip = takeWhile is_digit s1;
               s2 = dropWhile is_digit s1;
               s3 = (case s2 of [] \<Rightarrow> s2 | c # r \<Rightarrow> if c = CHR ''.'' then r else s2);
               fp = takeWhile is_digit s3;
               s4 = dropWhile is_digit s3
           in if ip = [] then None
              else
                (case s4 of
                   [] \<Rightarrow> Some (negative, ip, fp, None)
                 | c # r \<Rightarrow>
                     if c = CHR ''e'' \<or> c = CHR ''E'' then
                       (case strip_sign r of
                          (eneg, ds) \<Rightarrow>
                            if ds \<noteq> [] \<and> list_all is_digit ds
                            then Some (negative, ip, fp, Some (eneg, ds))
                            else None)
                     else None)))"

definition gateRegex_match :: "string \<Rightarrow> (string \<times> string \<times> string) option" where
  "gateRegex_match cmd =
     (case match_identifier cmd of
        None \<Rightarrow> None
      | Some (m1, rest) \<Rightarrow>
          (let m2 = takeWhile is_digit rest;
               rest2 = dropWhile is_digit rest
           in case rest2 of
                [] \<Rightarrow> Some (m1, m2, [])
              | c # lit \<Rightarrow>
                  if c = CHR '':'' then
                    (case parse_literal lit of
                       None \<Rightarrow> None
                     | Some parts \<Rightarrow> Some (m1, m2, lit))
                  else None))"

text \<open>
  \<open>std::stoi\<close> on a run of digits: \<open>std::out_of_range\<close> is thrown past \<open>INT_MAX\<close>.
\<close>

definition stoi :: "string \<Rightarrow> failure + int" where
  "stoi ds = (if digits_value ds > 2147483647 then Inl OutOfRange else Inr (int (digits_value ds)))"

text \<open>
  \<open>std::stold\<close> on a literal that \<open>gateRegex\<close> accepted: the real number that the
  literal denotes (the rounding to \<open>long double\<close>, and the exception for a literal out
  of its range, are not modelled).
\<close>

definition stold :: "string \<Rightarrow> real" where
  "stold s =
     (case parse_literal s of
        None \<Rightarrow> 0
      | Some (negative, ip, fp, ex) \<Rightarrow>
          (let mantissa = real (digits_value ip) + real (digits_value fp) / 10 ^ length fp;
               scaled =
                 (case ex of
                    None \<Rightarrow> mantissa
                  | Some (eneg, ds) \<Rightarrow>
                      if eneg then mantissa / 10 ^ digits_value ds
                      else mantissa * 10 ^ digits_value ds)
           in if negative then - scaled else scaled))"

text \<open>\<open>nearbyint\<close> in the default rounding mode: to the nearest integer, a tie to the even one.\<close>

definition nearbyint :: "real \<Rightarrow> real" where
  "nearbyint v =
     (let f = \<lfloor>v\<rfloor>; d = v - of_int f
      in if d < 1 / 2 then of_int f
         else if d > 1 / 2 then of_int (f + 1)
         else if even f then of_int f
         else of_int (f + 1))"

text \<open>
  The loop that reads the control labels from the rest of the line (lines 124 to 140 of
  the source): \<open>k\<close> iterations are left.
\<close>

fun read_controls ::
  "nat \<Rightarrow> istream \<Rightarrow> registerMap \<Rightarrow> Control list \<Rightarrow> failure + (Control list \<times> istream)" where
  "read_controls 0 iss regs controls = Inr (controls, iss)"
| "read_controls (Suc k) iss regs controls =
     (case extract_string iss of
        (None, iss') \<Rightarrow> Inl (Exit 1)
      | (Some label, iss') \<Rightarrow>
          (let negativeControl = (hd label = CHR ''-'');
               label' = (if negativeControl then tl label else label)
           in case map_of regs label' of
                None \<Rightarrow> Inl (Exit 1)
              | Some (first, second) \<Rightarrow>
                  read_controls k iss' regs
                    (controls @ [Control first (if negativeControl then neg else pos)])))"

text \<open>
  The \<open>switch (gate)\<close> of \<open>readRealGateDescriptions\<close> with the line before it
  (lines 154 to 205). \<open>TOLERANCE\<close> stands for \<open>dd::ComplexNumbers::TOLERANCE\<close>. A gate
  kind for which the switch has no label emplaces nothing.
\<close>

definition emplaceRealGate ::
  "real \<Rightarrow> Gate \<Rightarrow> real \<Rightarrow> Control list \<Rightarrow> nat \<Rightarrow> Operation QuantumComputation
    \<Rightarrow> failure + Operation QuantumComputation" where
  "emplaceRealGate TOLERANCE gate lambda controls target qc =
     (let x = nearbyint lambda;
          plain = Inr (emplace_back
                    (StandardOperation (nqubits qc) controls [target] gate [Value lambda]) qc);
          rotation = Inr (emplace_back
                    (StandardOperation (nqubits qc) controls [target] gate [PiDividedBy lambda]) qc);
          phase =
            (if \<bar>lambda - x\<bar> < TOLERANCE then
               (if x = 1 \<or> x = - 1 then
                  Inr (emplace_back (StandardOperation (nqubits qc) controls [target] Z []) qc)
                else if x = 2 then
                  Inr (emplace_back (StandardOperation (nqubits qc) controls [target] S []) qc)
                else if x = - 2 then
                  Inr (emplace_back (StandardOperation (nqubits qc) controls [target] Sdag []) qc)
                else if x = 4 then
                  Inr (emplace_back (StandardOperation (nqubits qc) controls [target] T []) qc)
                else if x = - 4 then
                  Inr (emplace_back (StandardOperation (nqubits qc) controls [target] Tdag []) qc)
                else
                  Inr (emplace_back
                    (StandardOperation (nqubits qc) controls [target] gate [PiDividedBy x]) qc))
             else
               Inr (emplace_back
                 (StandardOperation (nqubits qc) controls [target] gate [PiDividedBy lambda]) qc));
          two_target =
            (case rev controls of
               [] \<Rightarrow> Inl UndefinedBehaviour
             | Control target1 pol # others \<Rightarrow>
                 Inr (emplace_back
                   (StandardOperation (nqubits qc) (butlast controls) [target, target1] gate []) qc))
      in case gate of
           None_gate \<Rightarrow> Inl (Exit 1)
         | I \<Rightarrow> plain | H \<Rightarrow> plain | Y \<Rightarrow> plain | Z \<Rightarrow> plain | S \<Rightarrow> plain | Sdag \<Rightarrow> plain
         | T \<Rightarrow> plain | Tdag \<Rightarrow> plain | V \<Rightarrow> plain | Vdag \<Rightarrow> plain | U3 \<Rightarrow> plain | U2 \<Rightarrow> plain
         | X \<Rightarrow> Inr (emplace_back (StandardOperation (nqubits qc) controls [target] X []) qc)
         | RX \<Rightarrow> rotation | RY \<Rightarrow> rotation
         | RZ \<Rightarrow> phase | U1 \<Rightarrow> phase
         | SWAP \<Rightarrow> two_target | P \<Rightarrow> two_target | Pdag \<Rightarrow> two_target
         | Phase \<Rightarrow> Inr qc | SX \<Rightarrow> Inr qc | SXdag \<Rightarrow> Inr qc | iSWAP \<Rightarrow> Inr qc)"

text \<open>
  The first part of a gate line (lines 88 to 115): the \<open>regex_match\<close> on \<open>cmd\<close>, the
  lower-cased first word of the line, and from its groups the gate, the number of
  controls and the parameter. \<open>identifierMap\<close> is a table of the missing headers and is
  a parameter.
\<close>

definition parseRealGate ::
  "(string \<Rightarrow> Gate option) \<Rightarrow> string \<Rightarrow> 'op QuantumComputation
    \<Rightarrow> failure + (Gate \<times> int \<times> real)" where
  "parseRealGate identifierMap cmd qc =
     (case gateRegex_match cmd of
        None \<Rightarrow> Inl (Exit 1)
      | Some (m1, m2, m3) \<Rightarrow>
          (case (if m1 = ''t'' then Some X else identifierMap m1) of
             None \<Rightarrow> Inl (Exit 1)
           | Some gate \<Rightarrow>
               (case (if m2 = [] then Inr 0
                      else (case stoi m2 of Inl e \<Rightarrow> Inl e | Inr v \<Rightarrow> Inr (v - 1))) of
                  Inl e \<Rightarrow> Inl e
                | Inr ncontrols0 \<Rightarrow>
                    (let lambda = (if m3 = [] then 0 else stold m3);
                         ncontrols =
                           (if gate = V \<or> gate = Vdag \<or> m1 = ''c'' then 1
                            else if gate = P \<or> gate = Pdag then 2
                            else ncontrols0)
                     in if ncontrols \<ge> int (nqubits qc) then Inl (Exit 1)
                        else Inr (gate, ncontrols, lambda)))))"

text \<open>
  One gate line, from the \<open>regex_match\<close> to the \<open>switch\<close> (lines 88 to 206). A failed
  \<open>getline\<close> leaves the fresh local \<open>qubits\<close> empty.
\<close>

definition readRealGate ::
  "(string \<Rightarrow> Gate option) \<Rightarrow> real \<Rightarrow> string \<Rightarrow> istream \<Rightarrow> Operation QuantumComputation
    \<Rightarrow> failure + (istream \<times> Operation QuantumComputation)" where
  "readRealGate identifierMap TOLERANCE cmd inp qc =
     (case parseRealGate identifierMap cmd qc of
        Inl e \<Rightarrow> Inl e
      | Inr (gate, ncontrols, lambda) \<Rightarrow>
          (case getline inp of
             (line, inp') \<Rightarrow>
               (let qubits = (case line of None \<Rightarrow> [] | Some l \<Rightarrow> l) in
                case read_controls (nat ncontrols) (istringstream qubits) (qregs qc) [] of
                  Inl e \<Rightarrow> Inl e
                | Inr (controls, iss) \<Rightarrow>
                    (case extract_string iss of
                       (None, iss') \<Rightarrow> Inl (Exit 1)
                     | (Some label, iss') \<Rightarrow>
                         (case map_of (qregs qc) label of
                            None \<Rightarrow> Inl (Exit 1)
                          | Some (first, second) \<Rightarrow>
                              (case emplaceRealGate TOLERANCE gate lambda controls first
                                      (updateMaxControls ncontrols qc) of
                                 Inl e \<Rightarrow> Inl e
                               | Inr qc' \<Rightarrow> Inr (inp', qc')))))))"

text \<open>
  \<open>readRealGateDescriptions(is)\<close>: the loop \<open>while (!is.eof())\<close>. From a stream whose
  \<open>failbit\<close> is set and whose \<open>eofbit\<close> is not, the loop does not end; the function
  takes fuel as \<open>readRealHeader\<close> does.
\<close>

fun readRealGateDescriptions ::
  "nat \<Rightarrow> (string \<Rightarrow> Gate option) \<Rightarrow> real \<Rightarrow> string \<Rightarrow> istream
    \<Rightarrow> Operation QuantumComputation
    \<Rightarrow> (failure + istream \<times> Operation QuantumComputation) option" where
  "readRealGateDescriptions 0 identifierMap TOLERANCE cmd inp qc = None"
| "readRealGateDescriptions (Suc fuel) identifierMap TOLERANCE cmd inp qc =
     (if eofbit inp then Some (Inr (inp, qc))
      else
        (case extract_string inp of
           (r, inp1) \<Rightarrow>
             (let cmd' = map tolower (case r of None \<Rightarrow> cmd | Some w \<Rightarrow> w) in
              if cmd' = [] then Some (Inl UndefinedBehaviour)
              else if hd cmd' = CHR ''#'' then
                readRealGateDescriptions fuel identifierMap TOLERANCE cmd' (ignore_line inp1) qc
              else if cmd' = ''.end'' then Some (Inr (inp1, qc))
              else
                (case readRealGate identifierMap TOLERANCE cmd' inp1 qc of
                   Inl e \<Rightarrow> Some (Inl e)
                 | Inr (inp2, qc') \<Rightarrow>
                     readRealGateDescriptions fuel identifierMap TOLERANCE cmd' inp2 qc'))))"

text \<open>\<open>importReal(is)\<close>; both loops get the same fuel.\<close>

definition importReal ::
  "nat \<Rightarrow> (string \<Rightarrow> Gate option) \<Rightarrow> real \<Rightarrow> istream \<Rightarrow> Operation QuantumComputation
    \<Rightarrow> (failure + istream \<times> Operation QuantumComputation) option" where
  "importReal fuel identifierMap TOLERANCE inp qc =
     (case readRealHeader fuel [] [] inp qc of
        None \<Rightarrow> None
      | Some (Inl e) \<Rightarrow> Some (Inl e)
      | Some (Inr (inp', qc')) \<Rightarrow>
          readRealGateDescriptions fuel identifierMap TOLERANCE [] inp' qc')"

section \<open>Grid-benchmark import\<close>

text \<open>
  One non-empty line of \<open>importGRCS\<close>. \<open>identifier\<close>, \<open>control\<close> and \<open>target\<close> are
  declared before the loop and keep their values where an extraction fails; \<open>cycle\<close> is
  read and not used. \<open>PI_2\<close> is written \<open>PiDividedBy 2\<close>.
\<close>

definition importGRCS_line ::
  "string \<Rightarrow> string \<Rightarrow> nat \<Rightarrow> nat \<Rightarrow> Operation QuantumComputation
    \<Rightarrow> failure + (string \<times> nat \<times> nat \<times> Operation QuantumComputation)" where
  "importGRCS_line line identifier control target qc =
     (case extract_unsigned 4294967295 (istringstream line) of
        (cycle, ss1) \<Rightarrow>
          (case extract_string ss1 of
             (r, ss2) \<Rightarrow>
               (let identifier' = (case r of None \<Rightarrow> identifier | Some w \<Rightarrow> w) in
                if identifier' = ''cz'' then
                  (case extract_unsigned 65535 ss2 of
                     (c, ss3) \<Rightarrow>
                       (case extract_unsigned 65535 ss3 of
                          (t, ss4) \<Rightarrow>
                            (let control' = (case c of Unchanged \<Rightarrow> control | Stored v \<Rightarrow> v);
                                 target' = (case t of Unchanged \<Rightarrow> target | Stored v \<Rightarrow> v)
                             in Inr (identifier', control', target',
                                  emplace_back
                                    (StandardOperation (nqubits qc) [Control control' pos]
                                       [target'] Z []) qc))))
                else
                  (case extract_unsigned 65535 ss2 of
                     (t, ss3) \<Rightarrow>
                       (let target' = (case t of Unchanged \<Rightarrow> target | Stored v \<Rightarrow> v) in
                        if identifier' = ''h'' then
                          Inr (identifier', control, target',
                            emplace_back (StandardOperation (nqubits qc) [] [target'] H []) qc)
                        else if identifier' = ''t'' then
                          Inr (identifier', control, target',
                            emplace_back (StandardOperation (nqubits qc) [] [target'] T []) qc)
                        else if identifier' = ''x_1_2'' then
                          Inr (identifier', control, target',
                            emplace_back
                              (StandardOperation (nqubits qc) [] [target'] RX [PiDividedBy 2]) qc)
                        else if identifier' = ''y_1_2'' then
                          Inr (identifier', control, target',
                            emplace_back
                              (StandardOperation (nqubits qc) [] [target'] RY [PiDividedBy 2]) qc)
                        else Inl (Exit 1))))))"

text \<open>What is left of a stream, for the termination of loops that read it.\<close>

definition stream_measure :: "istream \<Rightarrow> nat" where
  "stream_measure inp = length (buffer inp) + (if good inp then 1 else 0)"

text \<open>The loop \<open>while (std::getline(is, line))\<close> of \<open>importGRCS\<close>.\<close>

function importGRCS_loop ::
  "string \<Rightarrow> nat \<Rightarrow> nat \<Rightarrow> istream \<Rightarrow> Operation QuantumComputation
    \<Rightarrow> failure + (istream \<times> Operation QuantumComputation)" where
  "importGRCS_loop identifier control target inp qc =
     (case getline inp of
        (None, inp') \<Rightarrow> Inr (inp', qc)
      | (Some line, inp') \<Rightarrow>
          if line = [] then importGRCS_loop identifier control target inp' qc
          else
            (case importGRCS_line line identifier control target qc of
               Inl e \<Rightarrow> Inl e
             | Inr (identifier', control', target', qc') \<Rightarrow>
                 importGRCS_loop identifier' control' target' inp' qc'))"
  by pat_completeness auto
termination
proof -
  have shorter: "stream_measure inp' < stream_measure inp"
    if "(Some line, inp') = getline inp" for line inp' inp
  proof -
    from that have ok: "good inp" "buffer inp \<noteq> []"
      by (auto simp: getline_def split: if_splits)
    have le: "length (dropWhile (\<lambda>c. c \<noteq> CHR 0x0A) (buffer inp)) \<le> length (buffer inp)"
      by (rule length_dropWhile_le)
    show ?thesis
    proof (cases "dropWhile (\<lambda>c. c \<noteq> CHR 0x0A) (buffer inp)")
      case Nil
      with that ok have "inp' = inp\<lparr> buffer := [], eofbit := True \<rparr>"
        unfolding getline_def Let_def by simp
      with ok show ?thesis by (simp add: stream_measure_def good_def)
    next
      case (Cons c rest)
      with that ok have "inp' = inp\<lparr> buffer := rest \<rparr>"
        unfolding getline_def Let_def by simp
      with ok Cons le show ?thesis by (simp add: stream_measure_def good_def)
    qed
  qed
  show ?thesis
    by (relation "measure (\<lambda>(idf, ctl, tgt, inp, qc). stream_measure inp)")
      (auto simp: shorter)
qed

text \<open>
  \<open>importGRCS(is, filename)\<close>; the local \<open>benchmark\<close>, computed from the file name and
  never read, is left out.
\<close>

definition importGRCS ::
  "istream \<Rightarrow> Operation QuantumComputation
    \<Rightarrow> failure + (istream \<times> Operation QuantumComputation)" where
  "importGRCS inp qc =
     (case extract_unsigned 65535 inp of
        (v, inp1) \<Rightarrow>
          (case importGRCS_loop [] 0 0 inp1
                  (qc\<lparr> nqubits := (case v of Unchanged \<Rightarrow> nqubits qc | Stored n \<Rightarrow> n) \<rparr>) of
             Inl e \<Rightarrow> Inl e
           | Inr (inp2, qc2) \<Rightarrow>
               Inr (inp2,
                 qc2\<lparr> inputPermutation := seed_identity 0 (nqubits qc2) (inputPermutation qc2),
                      outputPermutation := seed_identity 0 (nqubits qc2) (outputPermutation qc2) \<rparr>)))"

section \<open>OpenQASM import\<close>

text \<open>
  The scanner and parser (\<open>qasm::Parser\<close>) are not among the sources. The statement
  loop of \<open>importOpenQASM\<close> is modelled on what the parser hands to it: one value per
  iteration, which names the branch taken (the kind of \<open>p.sym\<close>) and holds what the
  parser's calls return in that branch. \<open>ParserError\<close> is a \<open>p.check\<close> that does not
  find its token. The parser is given the circuit's register tables by reference, so
  \<open>p.qregs\<close> and \<open>p.cregs\<close> are the circuit's own.
\<close>

datatype qasm_statement =
    QregStatement string nat
  | CregStatement string nat
  | QopStatement Operation
  | GateDeclStatement
  | IncludeStatement
  | BarrierStatement "(nat \<times> nat) list"
  | OpaqueGateDeclStatement
  | IfStatement string nat Operation
  | SnapshotStatement nat "(nat \<times> nat) list"
  | ProbabilitiesStatement
  | UnexpectedStatement
  | ParserError

text \<open>
  One iteration of the loop. In the \<open>if\<close> branch with a register that is not declared
  the operation is not parsed there: the next iteration starts at its first token and
  appends it as an ordinary operation, which the second component of the result (the
  statement still to be read) says.
\<close>

fun importOpenQASM_statement ::
  "(nat \<Rightarrow> Operation \<Rightarrow> Operation) \<Rightarrow> qasm_statement \<Rightarrow> Operation QuantumComputation
    \<Rightarrow> failure + (Operation QuantumComputation \<times> qasm_statement option)" where
  "importOpenQASM_statement setNqubits (QregStatement s n) qc =
     Inr (qc\<lparr> qregs := reg_assign s (nqubits qc, n) (qregs qc),
              nqubits := nqubits qc + n,
              ops := map (setNqubits (nqubits qc + n)) (ops qc) \<rparr>, None)"
| "importOpenQASM_statement setNqubits (CregStatement s n) qc =
     Inr (qc\<lparr> cregs := reg_assign s (nclassics qc, n) (cregs qc),
              nclassics := nclassics qc + n \<rparr>, None)"
| "importOpenQASM_statement setNqubits (QopStatement op) qc = Inr (emplace_back op qc, None)"
| "importOpenQASM_statement setNqubits GateDeclStatement qc = Inr (qc, None)"
| "importOpenQASM_statement setNqubits IncludeStatement qc = Inr (qc, None)"
| "importOpenQASM_statement setNqubits (BarrierStatement args) qc =
     Inr (emplace_back (Barrier (nqubits qc) (map fst args)) qc, None)"
| "importOpenQASM_statement setNqubits OpaqueGateDeclStatement qc = Inr (qc, None)"
| "importOpenQASM_statement setNqubits (IfStatement creg n op) qc =
     (case map_of (cregs qc) creg of
        None \<Rightarrow> Inr (qc\<lparr> cerr := cerr qc @ [IfNotACreg creg] \<rparr>, Some (QopStatement op))
      | Some (first, second) \<Rightarrow>
          Inr (emplace_back (ClassicControlledOperation op (first + n)) qc, None))"
| "importOpenQASM_statement setNqubits (SnapshotStatement n arguments) qc =
     Inr (emplace_back (Snapshot (nqubits qc) (map fst arguments) n)
            (qc\<lparr> cerr := cerr qc
                 @ map (\<lambda>arg. SnapshotArgumentsMustBeQubits)
                     (filter (\<lambda>arg. snd arg \<noteq> 1) arguments) \<rparr>), None)"
| "importOpenQASM_statement setNqubits ProbabilitiesStatement qc =
     Inr (emplace_back (ShowProbabilities (nqubits qc)) qc, None)"
| "importOpenQASM_statement setNqubits UnexpectedStatement qc = Inl (Exit 1)"
| "importOpenQASM_statement setNqubits ParserError qc = Inl (Exit 1)"

text \<open>
  The loop \<open>do { ... } while (p.sym != Token::Kind::eof)\<close>, entered with at least one
  statement to read.
\<close>

fun importOpenQASM_loop ::
  "(nat \<Rightarrow> Operation \<Rightarrow> Operation) \<Rightarrow> qasm_statement list \<Rightarrow> Operation QuantumComputation
    \<Rightarrow> failure + Operation QuantumComputation" where
  "importOpenQASM_loop setNqubits [] qc = Inr qc"
| "importOpenQASM_loop setNqubits (stmt # rest) qc =
     (case importOpenQASM_statement setNqubits stmt qc of
        Inl e \<Rightarrow> Inl e
      | Inr (qc', None) \<Rightarrow> importOpenQASM_loop setNqubits rest qc'
      | Inr (qc', Some (QopStatement op)) \<Rightarrow>
          importOpenQASM_loop setNqubits rest (emplace_back op qc')
      | Inr (qc', Some other) \<Rightarrow> importOpenQASM_loop setNqubits rest qc')"

text \<open>
  \<open>importOpenQASM(is)\<close> on the statements that the parser finds after the header. The
  body of a \<open>do\<close> loop runs once before the test: with no statement at all the first
  iteration meets \<open>eof\<close> and ends in "unexpected statement".
\<close>

definition importOpenQASM ::
  "(nat \<Rightarrow> Operation \<Rightarrow> Operation) \<Rightarrow> qasm_statement list \<Rightarrow> Operation QuantumComputation
    \<Rightarrow> failure + Operation QuantumComputation" where
  "importOpenQASM setNqubits statements qc =
     (if statements = [] then Inl (Exit 1)
      else
        (case importOpenQASM_loop setNqubits statements qc of
           Inl e \<Rightarrow> Inl e
         | Inr qc' \<Rightarrow>
             Inr (qc'\<lparr> inputPermutation := seed_identity 0 (nqubits qc') (inputPermutation qc'),
                       outputPermutation := seed_identity 0 (nqubits qc') (outputPermutation qc') \<rparr>)))"

section \<open>import\<close>

text \<open>
  \<open>find_last_of\<close> and \<open>substr\<close> of \<open>std::string\<close>, with \<open>size_t\<close> of 64 bits:
  \<open>npos\<close> is \<open>- 1\<close>, and the positions are added and subtracted modulo \<open>2^64\<close>.
\<close>

fun find_last_from :: "char \<Rightarrow> string \<Rightarrow> nat \<Rightarrow> 64 word \<Rightarrow> 64 word" where
  "find_last_from c [] i found = found"
| "find_last_from c (x # xs) i found =
     find_last_from c xs (Suc i) (if x = c then of_nat i else found)"

definition find_last_of :: "char \<Rightarrow> string \<Rightarrow> 64 word" where
  "find_last_of c s = find_last_from c s 0 (- 1)"

definition substr :: "64 word \<Rightarrow> 64 word \<Rightarrow> string \<Rightarrow> failure + string" where
  "substr start cnt s =
     (if unat start > length s then Inl OutOfRange
      else Inr (take (unat cnt) (drop (unat start) s)))"

datatype Format = Real_format | OpenQASM | GRCS | OtherFormat

text \<open>
  \<open>import(filename, format)\<close>. \<open>files\<close> is the file system (\<open>None\<close>: the file cannot
  be opened) and \<open>parser\<close> is the missing OpenQASM parser, from the text of a file to
  the statements it hands to \<open>importOpenQASM\<close>. The result is \<open>None\<close> when the REAL
  importer does not return within the fuel.
\<close>

definition import_format ::
  "nat \<Rightarrow> (string \<Rightarrow> Gate option) \<Rightarrow> real \<Rightarrow> (nat \<Rightarrow> Operation \<Rightarrow> Operation)
    \<Rightarrow> (string \<Rightarrow> string option) \<Rightarrow> (string \<Rightarrow> qasm_statement list)
    \<Rightarrow> string \<Rightarrow> Format \<Rightarrow> Operation QuantumComputation
    \<Rightarrow> (failure + Operation QuantumComputation) option" where
  "import_format fuel identifierMap TOLERANCE setNqubits files parser filename format qc =
     (let slash = find_last_of (CHR ''/'') filename;
          dot = find_last_of (CHR ''.'') filename
      in case substr (slash + 1) (dot - slash - 1) filename of
           Inl e \<Rightarrow> Some (Inl e)
         | Inr nm \<Rightarrow>
             (case files filename of
                None \<Rightarrow> Some (Inl (Exit 3))
              | Some text \<Rightarrow>
                  (case format of
                     Real_format \<Rightarrow>
                       (case importReal fuel identifierMap TOLERANCE (istringstream text)
                               (qc\<lparr> name := nm \<rparr>) of
                          None \<Rightarrow> None
                        | Some (Inl e) \<Rightarrow> Some (Inl e)
                        | Some (Inr (inp, qc')) \<Rightarrow> Some (Inr qc'))
                   | OpenQASM \<Rightarrow>
                       Some (importOpenQASM setNqubits (parser text)
                               (updateMaxControls 2 (qc\<lparr> name := nm \<rparr>)))
                   | GRCS \<Rightarrow>
                       (case importGRCS (istringstream text) (qc\<lparr> name := nm \<rparr>) of
                          Inl e \<Rightarrow> Some (Inl e)
                        | Inr (inp, qc') \<Rightarrow> Some (Inr qc'))
                   | OtherFormat \<Rightarrow> Some (Inl (Exit 1)))))"

text \<open>\<open>import(filename)\<close>: the format is chosen by the extension.\<close>

definition import_file ::
  "nat \<Rightarrow> (string \<Rightarrow> Gate option) \<Rightarrow> real \<Rightarrow> (nat \<Rightarrow> Operation \<Rightarrow> Operation)
    \<Rightarrow> (string \<Rightarrow> string option) \<Rightarrow> (string \<Rightarrow> qasm_statement list)
    \<Rightarrow> string \<Rightarrow> Operation QuantumComputation
    \<Rightarrow> (failure + Operation QuantumComputation) option" where
  "import_file fuel identifierMap TOLERANCE setNqubits files parser filename qc =
     (let dot = find_last_of (CHR ''.'') filename
      in case substr (dot + 1) (- 1) filename of
           Inl e \<Rightarrow> Some (Inl e)
         | Inr ext \<Rightarrow>
             (let extension = map tolower ext in
              if extension = ''real'' then
                import_format fuel identifierMap TOLERANCE setNqubits files parser filename
                  Real_format qc
              else if extension = ''qasm'' then
                import_format fuel identifierMap TOLERANCE setNqubits files parser filename
                  OpenQASM qc
              else if extension = ''txt'' then
                import_format fuel identifierMap TOLERANCE setNqubits files parser filename
                  GRCS qc
              else Some (Inl (Exit 1))))"

section \<open>Predicates and quantities used in the statements\<close>

text \<open>Index \<open>i\<close> lies in the range of some register of the table.\<close>

definition inRegister :: "registerMap \<Rightarrow> nat \<Rightarrow> bool" where
  "inRegister regs i =
     list_ex (\<lambda>(reg_name, (start_idx, cnt)). start_idx \<le> i \<and> i < start_idx + cnt) regs"




text \<open>The circuit a call of the bridge leaves, whether it returned or was left by an exception.\<close>

definition result_circuit :: "bridge_result \<Rightarrow> Operation QuantumComputation" where
  "result_circuit r = (case r of Inl (e, qc') \<Rightarrow> qc' | Inr qc' \<Rightarrow> qc')"

section \<open>Example values\<close>

text \<open>Concrete circuits and a concrete package, used to instantiate the theorems below.\<close>

definition qc_example :: "nat QuantumComputation" where
  "qc_example = \<lparr> nqubits = 2, nclassics = 1, qregs = [(''q'', (0, 2))],
     cregs = [(''c'', (0, 1))],
     inputPermutation = [0 \<mapsto> 0, 1 \<mapsto> 1], outputPermutation = [0 \<mapsto> 0, 1 \<mapsto> 1],
     ops = [7], max_controls = 0, name = ''x'', cerr = [] \<rparr>"

definition dd_example :: "(nat, nat) Package" where
  "dd_example = \<lparr> DDone = 1, makeIdent = (\<lambda>calls lo hi. 1),
     multiply = (\<lambda>calls a b. a * b), isUnitary = (\<lambda>op. True),
     getDD = (\<lambda>calls op line perm executeSwaps. (op, line, perm)) \<rparr>"

definition qc_two :: "nat QuantumComputation" where
  "qc_two = \<lparr> nqubits = 3, nclassics = 0, qregs = [(''a'', (0, 1)), (''b'', (1, 2))],
     cregs = [],
     inputPermutation = [0 \<mapsto> 0, 1 \<mapsto> 1, 2 \<mapsto> 2],
     outputPermutation = [0 \<mapsto> 0, 1 \<mapsto> 1, 2 \<mapsto> 2],
     ops = [], max_controls = 0, name = [], cerr = [] \<rparr>"

definition qc_full :: "nat QuantumComputation" where
  "qc_full = \<lparr> nqubits = 128, nclassics = 0, qregs = [(''q'', (0, 128))], cregs = [],
     inputPermutation = seed_identity 0 128 Map.empty,
     outputPermutation = seed_identity 0 128 Map.empty,
     ops = [], max_controls = 0, name = [], cerr = [] \<rparr>"

text \<open>
  Circuits whose operations are natural numbers, an operation acting on the qubit of
  its own number: \<open>qc_slack\<close> has five qubits in two registers and operations on qubits
  0 and 2; \<open>qc_noregs\<close> has two qubits, no register, and one operation on qubit 0.
\<close>

definition qc_slack :: "nat QuantumComputation" where
  "qc_slack = \<lparr> nqubits = 5, nclassics = 0, qregs = [(''a'', (0, 2)), (''b'', (2, 3))],
     cregs = [],
     inputPermutation = [0 \<mapsto> 0, 1 \<mapsto> 1, 2 \<mapsto> 2, 3 \<mapsto> 3, 4 \<mapsto> 4],
     outputPermutation = [0 \<mapsto> 0, 1 \<mapsto> 1, 2 \<mapsto> 2, 3 \<mapsto> 3, 4 \<mapsto> 4],
     ops = [0, 2], max_controls = 0, name = [], cerr = [] \<rparr>"

definition qc_noregs :: "nat QuantumComputation" where
  "qc_noregs = \<lparr> nqubits = 2, nclassics = 0, qregs = [], cregs = [],
     inputPermutation = [0 \<mapsto> 0, 1 \<mapsto> 1], outputPermutation = [0 \<mapsto> 0, 1 \<mapsto> 1],
     ops = [0], max_controls = 0, name = [], cerr = [] \<rparr>"


text \<open>
  Modelled from the spec: \<open>getIndexFromQubitRegister\<close> is not among the sources; the
  spec has it resolve a reference "to an absolute index via its declared register name
  and offset". It is used below only to run the bridge on concrete arguments.
\<close>

definition getIndexFromQubitRegister ::
  "Operation QuantumComputation \<Rightarrow> string \<times> nat \<Rightarrow> failure + nat" where
  "getIndexFromQubitRegister qc qubit =
     (case map_of (qregs qc) (fst qubit) of
        None \<Rightarrow> Inl OutOfRange
      | Some (first, second) \<Rightarrow> Inr (first + snd qubit))"

definition getIndexFromClassicalRegister ::
  "Operation QuantumComputation \<Rightarrow> string \<times> nat \<Rightarrow> failure + nat" where
  "getIndexFromClassicalRegister qc clbit =
     (case map_of (cregs qc) (fst clbit) of
        None \<Rightarrow> Inl OutOfRange
      | Some (first, second) \<Rightarrow> Inr (first + snd clbit))"

definition qc_q :: "Operation QuantumComputation" where
  "qc_q = \<lparr> nqubits = 8, nclassics = 1, qregs = [(''q'', (0, 8))], cregs = [(''c'', (0, 1))],
     inputPermutation = Map.empty, outputPermutation = Map.empty,
     ops = [], max_controls = 0, name = [], cerr = [] \<rparr>"

text \<open>
  The \<open>data\<close> of a definition over the local qubits \<open>d[0]\<close>, \<open>d[1]\<close>: a Hadamard, an
  instruction that is in no table and has no definition, and an X.
\<close>

definition unsupported_example :: "(Instruction \<times> Bit list \<times> Bit list) list" where
  "unsupported_example =
     [(Instruction ''h'' [] None, [Bit ''d'' 0], []),
      (Instruction ''mystery'' [] None, [Bit ''d'' 0, Bit ''d'' 1], []),
      (Instruction ''x'' [] None, [Bit ''d'' 1], [])]"

text \<open>
  A definition over the local qubits \<open>d[0]\<close>, \<open>d[1]\<close> whose second instruction acts on a
  bit that is not one of them: a Hadamard, then an X whose argument is missing from
  \<open>qargMap\<close>.
\<close>

definition failing_definition :: QuantumCircuit where
  "failing_definition =
     QuantumCircuit [Bit ''d'' 0, Bit ''d'' 1] []
       [(Instruction ''h'' [] None, [Bit ''d'' 0], []),
        (Instruction ''x'' [] None, [Bit ''a'' 0], [])]"

text \<open>A table for \<open>identifierMap\<close>, to run the REAL importer on examples.\<close>

definition identifierMap_example :: "string \<Rightarrow> Gate option" where
  "identifierMap_example =
     map_of [(''h'', H), (''x'', X), (''rz'', RZ), (''q'', RZ), (''f'', SWAP), (''v'', V)]"



definition qc_ab :: "Operation QuantumComputation" where
  "qc_ab = \<lparr> nqubits = 2, nclassics = 2, qregs = [(''a'', (0, 1)), (''b'', (1, 1))],
     cregs = [(''c_a'', (0, 1)), (''c_b'', (1, 1))],
     inputPermutation = [0 \<mapsto> 0, 1 \<mapsto> 1], outputPermutation = [0 \<mapsto> 0, 1 \<mapsto> 1],
     ops = [], max_controls = 0, name = [], cerr = [] \<rparr>"

text \<open>A value for \<open>dd::ComplexNumbers::TOLERANCE\<close>.\<close>

definition TOLERANCE_example :: real where
  "TOLERANCE_example = 1 / 10 ^ 13"



chapter \<open>Properties\<close>

section \<open>Register tables\<close>

lemma map_of_reg_insert_fresh:
  "map_of m k = None \<Longrightarrow> map_of (reg_insert k v m) = (map_of m)(k \<mapsto> v)"
  by (induction m) (auto simp: fun_eq_iff)

lemma map_of_reg_update:
  "map_of (reg_update k v m) x = (if x = k \<and> map_of m k \<noteq> None then Some v else map_of m x)"
  by (induction m) (auto simp: reg_update_def)

lemma map_of_reg_erase:
  "map_of (reg_erase k m) x = (if x = k then None else map_of m x)"
  by (induction m) (auto simp: reg_erase_def)

lemma seed_identity_apply:
  "seed_identity n nq p k = (if n \<le> k \<and> k < n + nq \<and> p k = None then Some k else p k)"
proof (induction nq arbitrary: p)
  case 0
  then show ?case by (simp add: seed_identity_def)
next
  case (Suc nq)
  have "seed_identity n (Suc nq) p = perm_insert (n + nq) (n + nq) (seed_identity n nq p)"
    by (simp add: seed_identity_def)
  then show ?case using Suc by (auto simp: perm_insert_def split: option.splits)
qed

section \<open>addClassicalRegister\<close>

text \<open>
  Claim C9. For a register name that is not in the classical register table,
  \<open>addClassicalRegister nc reg_name\<close> returns normally; the new table maps the name to
  the pair (old classical width, \<open>nc\<close>) and every other name as before; the classical
  width grows by \<open>nc\<close>; the qubit count, the qubit registers, both permutations and
  the operation list, with every operation in it, are the old ones, and no field other
  than the classical table and the classical width differs.
\<close>

theorem addClassicalRegister_frame:
  assumes "\<not> reg_count (cregs qc) reg_name"
  shows "\<exists>qc'. addClassicalRegister nc reg_name qc = Inr qc'
           \<and> map_of (cregs qc') = (map_of (cregs qc))(reg_name \<mapsto> (nclassics qc, nc))
           \<and> nclassics qc' = nclassics qc + nc
           \<and> nqubits qc' = nqubits qc
           \<and> qregs qc' = qregs qc
           \<and> inputPermutation qc' = inputPermutation qc
           \<and> outputPermutation qc' = outputPermutation qc
           \<and> ops qc' = ops qc
           \<and> qc' = qc\<lparr> cregs := cregs qc', nclassics := nclassics qc' \<rparr>"
proof -
  from assms have "map_of (cregs qc) reg_name = None"
    unfolding reg_count_def by blast
  then have "map_of (reg_insert reg_name (nclassics qc, nc) (cregs qc))
               = (map_of (cregs qc))(reg_name \<mapsto> (nclassics qc, nc))"
    by (rule map_of_reg_insert_fresh)
  with assms show ?thesis
    by (simp add: addClassicalRegister_def)
qed

theorem addClassicalRegister_frame_witness:
  "\<not> reg_count (cregs qc_example) ''d'' \<and>
   (\<exists>qc'. addClassicalRegister 3 ''d'' qc_example = Inr qc'
      \<and> map_of (cregs qc') = (map_of (cregs qc_example))(''d'' \<mapsto> (1, 3))
      \<and> nclassics qc' = 4 \<and> nqubits qc' = 2 \<and> ops qc' = [7])"
proof -
  have h: "\<not> reg_count (cregs qc_example) ''d''"
    by (simp add: qc_example_def reg_count_def)
  from addClassicalRegister_frame [OF h, of 3] show ?thesis
    using h by (auto simp: qc_example_def)
qed

section \<open>The builder on an empty operation list\<close>

text \<open>
  Claim C10. When the operation list is empty, \<open>simulate\<close> returns the caller's input
  edge and leaves the circuit as it was, and the only call made to the package is one
  \<open>incRef\<close> of that edge: no \<open>multiply\<close>, no \<open>garbageCollect\<close>, no
  \<open>useMatrixNormalization\<close>.
\<close>

theorem simulate_empty:
  assumes "ops qc = []"
  shows "simulate MAX_QUBITS LINE_DEFAULT in_edge dd executeSwaps qc
           = Inr (in_edge, qc, [IncRef in_edge])"
  using assms by (simp add: simulate_def)

theorem simulate_empty_witness:
  "ops (qc_example\<lparr> ops := [] \<rparr>) = [] \<and>
   simulate 128 (-1) 5 dd_example True (qc_example\<lparr> ops := [] \<rparr>)
     = Inr (5, qc_example\<lparr> ops := [] \<rparr>, [IncRef 5])"
  using simulate_empty [of "qc_example\<lparr> ops := [] \<rparr>" 128 "-1" 5 dd_example True]
  by simp

section \<open>addQubitRegister\<close>

lemma fst_reg_update: "map fst (reg_update k v m) = map fst m"
  by (induction m) (auto simp: reg_update_def)

text \<open>
  Claim C4, amended. Provided the new total \<open>nqubits + nq\<close> does not exceed \<open>MAXN\<close>:
  for a name already in the qubit register table, \<open>addQubitRegister\<close> succeeds and
  extends that register in place by \<open>nq\<close> (same start, size grown by \<open>nq\<close>, every other
  register and the key order as before) exactly when the register's range ends at the
  current qubit count, and otherwise the call fails with \<open>exit(1)\<close>; for a name not in
  the table it succeeds and the name denotes a new register that starts at the current
  qubit count and has size \<open>nq\<close>.
\<close>

theorem addQubitRegister_cases:
  assumes "nqubits qc + nq \<le> MAXN"
  shows "case map_of (qregs qc) reg_name of
           Some (first, second) \<Rightarrow>
             if first + second = nqubits qc
             then \<exists>qc'. addQubitRegister MAXN setNqubits nq reg_name qc = Inr qc'
                    \<and> map_of (qregs qc') = (map_of (qregs qc))(reg_name \<mapsto> (first, second + nq))
                    \<and> map fst (qregs qc') = map fst (qregs qc)
                    \<and> nqubits qc' = nqubits qc + nq
             else addQubitRegister MAXN setNqubits nq reg_name qc = Inl (Exit 1)
         | None \<Rightarrow>
             \<exists>qc'. addQubitRegister MAXN setNqubits nq reg_name qc = Inr qc'
               \<and> map_of (qregs qc') = (map_of (qregs qc))(reg_name \<mapsto> (nqubits qc, nq))
               \<and> nqubits qc' = nqubits qc + nq"
proof (cases "map_of (qregs qc) reg_name")
  case None
  then show ?thesis using assms
    by (simp add: addQubitRegister_def reg_count_def map_of_reg_insert_fresh)
next
  case (Some r)
  obtain first second where r: "r = (first, second)" by (cases r)
  have "map_of (reg_update reg_name (first, second + nq) (qregs qc))
          = (map_of (qregs qc))(reg_name \<mapsto> (first, second + nq))"
    using Some by (auto simp: map_of_reg_update fun_eq_iff)
  then show ?thesis using assms Some r
    by (simp add: addQubitRegister_def reg_count_def fst_reg_update)
qed

theorem addQubitRegister_cases_witness:
  "addQubitRegister 128 (\<lambda>n op. op) 2 ''a'' qc_two = Inl (Exit 1)
   \<and> (\<exists>qc'. addQubitRegister 128 (\<lambda>n op. op) 2 ''b'' qc_two = Inr qc'
        \<and> map_of (qregs qc') ''b'' = Some (1, 4) \<and> nqubits qc' = 5)
   \<and> (\<exists>qc'. addQubitRegister 128 (\<lambda>n op. op) 2 ''c'' qc_two = Inr qc'
        \<and> map_of (qregs qc') ''c'' = Some (3, 2) \<and> nqubits qc' = 5)"
proof -
  have h: "nqubits qc_two + 2 \<le> 128" by (simp add: qc_two_def)
  from addQubitRegister_cases [OF h, where reg_name = "''a''" and setNqubits = "\<lambda>n op. op"]
       addQubitRegister_cases [OF h, where reg_name = "''b''" and setNqubits = "\<lambda>n op. op"]
       addQubitRegister_cases [OF h, where reg_name = "''c''" and setNqubits = "\<lambda>n op. op"]
  show ?thesis by (auto simp: qc_two_def)
qed

text \<open>
  Without the bound the claim fails: with \<open>MAXN = 128\<close> and 128 qubits in the single
  register \<open>q\<close>, whose range ends at the qubit count, growing \<open>q\<close> by one is refused.
\<close>

theorem addQubitRegister_cases_counterexample:
  "map_of (qregs qc_full) ''q'' = Some (0, 128) \<and> 0 + 128 = nqubits qc_full
   \<and> addQubitRegister 128 (\<lambda>n op. op) 1 ''q'' qc_full = Inl (Exit 1)"
  by (simp add: qc_full_def addQubitRegister_def)

section \<open>stripTrailingIdleQubits\<close>

lemma isIdleQubit_loop_iff:
  "isIdleQubit_loop actsOn os i = (\<forall>op \<in> set os. \<not> actsOn op i)"
  by (induction os) auto

lemma getQubitRegister_Inr:
  "getQubitRegister regs i = Inr nm \<Longrightarrow>
     \<exists>s c. (nm, (s, c)) \<in> set regs \<and> s \<le> i \<and> i < s + c"
  by (induction regs i rule: getQubitRegister.induct) (fastforce split: if_splits)+

lemma getQubitRegister_total:
  "inRegister regs i \<Longrightarrow> \<exists>nm. getQubitRegister regs i = Inr nm"
  by (induction regs i rule: getQubitRegister.induct) (auto simp: inRegister_def)

lemma distinct_reg_erase: "distinct (map fst m) \<Longrightarrow> distinct (map fst (reg_erase k m))"
  by (induction m) (auto simp: reg_erase_def)

lemma set_reg_erase: "set (reg_erase k m) = {e \<in> set m. fst e \<noteq> k}"
  by (auto simp: reg_erase_def)

lemma reg_update_other:
  "(k', v') \<in> set m \<Longrightarrow> k' \<noteq> k \<Longrightarrow> (k', v') \<in> set (reg_update k v m)"
  by (induction m) (auto simp: reg_update_def)

lemma reg_update_self:
  "(k, v0) \<in> set m \<Longrightarrow> (k, v) \<in> set (reg_update k v m)"
  by (induction m) (auto simp: reg_update_def)

lemma inRegister_iff:
  "inRegister regs i = (\<exists>nm s c. (nm, (s, c)) \<in> set regs \<and> s \<le> i \<and> i < s + c)"
  by (auto simp: inRegister_def list_ex_iff)

lemma inRegister_after_shrink:
  assumes d: "distinct (map fst regs)"
    and e: "(nm, (s, c)) \<in> set regs" "s \<le> i" "i < s + c"
    and j: "j < i" "inRegister regs j"
  shows "inRegister (if c = 1 then reg_erase nm regs else reg_update nm (s, c - 1) regs) j"
proof -
  from j obtain nm' s' c' where e': "(nm', (s', c')) \<in> set regs" "s' \<le> j" "j < s' + c'"
    by (auto simp: inRegister_iff)
  show ?thesis
  proof (cases "nm' = nm")
    case True
    with d e e' have eq: "s' = s" "c' = c"
      by (auto dest: eq_key_imp_eq_value)
    with e e' j have c1: "c \<noteq> 1" and lt: "j < s + (c - 1)" by auto
    have "(nm, (s, c - 1)) \<in> set (reg_update nm (s, c - 1) regs)"
      using e(1) by (rule reg_update_self)
    with lt e'(2) eq have "inRegister (reg_update nm (s, c - 1) regs) j"
      unfolding inRegister_iff by blast
    with c1 show ?thesis by simp
  next
    case False
    with e' have "(nm', (s', c')) \<in> set (reg_erase nm regs)"
      "(nm', (s', c')) \<in> set (reg_update nm (s, c - 1) regs)"
      by (auto simp: set_reg_erase reg_update_other)
    with e' show ?thesis unfolding inRegister_iff by auto
  qed
qed

lemma strip_loop_correct:
  assumes "nqubits qc = n" "0 < m" "m \<le> n"
    and "\<not> isIdleQubit actsOn qc (m - 1)"
    and "\<forall>i. m \<le> i \<and> i < n \<longrightarrow> isIdleQubit actsOn qc i"
    and "\<forall>i. m \<le> i \<and> i < n \<longrightarrow> inRegister (qregs qc) i"
    and "distinct (map fst (qregs qc))"
  shows "\<exists>qc'. stripTrailingIdleQubits_loop actsOn setNqubits n qc = Inr qc'
      \<and> nqubits qc' = m
      \<and> inputPermutation qc' = (\<lambda>k. if m \<le> k \<and> k < n then None else inputPermutation qc k)
      \<and> outputPermutation qc' = (\<lambda>k. if m \<le> k \<and> k < n then None else outputPermutation qc k)
      \<and> ops qc' = map (setNqubits m) (ops qc)"
  using assms
proof (induction n arbitrary: qc)
  case 0
  then show ?case by simp
next
  case (Suc i)
  show ?case
  proof (cases "m = Suc i")
    case True
    with Suc.prems show ?thesis by (auto simp: fun_eq_iff)
  next
    case False
    with Suc.prems have mi: "m \<le> i" by simp
    with Suc.prems have idle: "isIdleQubit actsOn qc i" by simp
    from Suc.prems mi have "inRegister (qregs qc) i" by simp
    then obtain nm where g: "getQubitRegister (qregs qc) i = Inr nm"
      using getQubitRegister_total by blast
    then obtain s c where e: "(nm, (s, c)) \<in> set (qregs qc)" "s \<le> i" "i < s + c"
      using getQubitRegister_Inr by blast
    with Suc.prems have at: "map_of (qregs qc) nm = Some (s, c)" by simp
    define regs' where "regs' = (if c = 1 then reg_erase nm (qregs qc) else reg_update nm (s, c - 1) (qregs qc))"
    define qc2 where "qc2 = qc\<lparr> inputPermutation := perm_erase i (inputPermutation qc),
                        outputPermutation := perm_erase i (outputPermutation qc),
                        nqubits := nqubits qc - 1, qregs := regs' \<rparr>"
    have step: "stripTrailingIdleQubits_loop actsOn setNqubits (Suc i) qc
                  = stripTrailingIdleQubits_loop actsOn setNqubits i qc2"
      using idle g at by (simp add: qc2_def regs'_def Let_def)
    have idle2: "\<And>j. isIdleQubit actsOn qc2 j = isIdleQubit actsOn qc j"
      by (simp add: isIdleQubit_def qc2_def)
    have d2: "distinct (map fst (qregs qc2))"
      using Suc.prems by (simp add: qc2_def regs'_def distinct_reg_erase fst_reg_update)
    have cov: "\<forall>j. m \<le> j \<and> j < i \<longrightarrow> inRegister (qregs qc2) j"
    proof (intro allI impI)
      fix j assume "m \<le> j \<and> j < i"
      with Suc.prems have "j < i" "inRegister (qregs qc) j" by auto
      from inRegister_after_shrink [OF _ e this] Suc.prems
      show "inRegister (qregs qc2) j" by (simp add: qc2_def regs'_def)
    qed
    have "\<exists>qc'. stripTrailingIdleQubits_loop actsOn setNqubits i qc2 = Inr qc'
      \<and> nqubits qc' = m
      \<and> inputPermutation qc' = (\<lambda>k. if m \<le> k \<and> k < i then None else inputPermutation qc2 k)
      \<and> outputPermutation qc' = (\<lambda>k. if m \<le> k \<and> k < i then None else outputPermutation qc2 k)
      \<and> ops qc' = map (setNqubits m) (ops qc2)"
    proof (rule Suc.IH)
      show "nqubits qc2 = i" using Suc.prems by (simp add: qc2_def)
      show "0 < m" by fact
      show "m \<le> i" by fact
      show "\<not> isIdleQubit actsOn qc2 (m - 1)" using Suc.prems by (simp add: idle2)
      show "\<forall>j. m \<le> j \<and> j < i \<longrightarrow> isIdleQubit actsOn qc2 j" using Suc.prems by (simp add: idle2)
      show "\<forall>j. m \<le> j \<and> j < i \<longrightarrow> inRegister (qregs qc2) j" by (rule cov)
      show "distinct (map fst (qregs qc2))" by (rule d2)
    qed
    then obtain qc' where r: "stripTrailingIdleQubits_loop actsOn setNqubits i qc2 = Inr qc'"
      "nqubits qc' = m"
      "inputPermutation qc' = (\<lambda>k. if m \<le> k \<and> k < i then None else inputPermutation qc2 k)"
      "outputPermutation qc' = (\<lambda>k. if m \<le> k \<and> k < i then None else outputPermutation qc2 k)"
      "ops qc' = map (setNqubits m) (ops qc2)" by blast
    have "inputPermutation qc' = (\<lambda>k. if m \<le> k \<and> k < Suc i then None else inputPermutation qc k)"
      using r(3) mi by (auto simp: qc2_def perm_erase_def fun_eq_iff)
    moreover have "outputPermutation qc' = (\<lambda>k. if m \<le> k \<and> k < Suc i then None else outputPermutation qc k)"
      using r(4) mi by (auto simp: qc2_def perm_erase_def fun_eq_iff)
    moreover have "ops qc' = map (setNqubits m) (ops qc)" using r(5) by (simp add: qc2_def)
    ultimately show ?thesis using step r(1,2) by simp
  qed
qed

text \<open>
  Claim C3, amended. Let the circuit have \<open>n\<close> qubits and let \<open>0 < m \<le> n\<close> be such that
  some operation acts on index \<open>m - 1\<close> and none acts on an index of \<open>[m, n)\<close> (as is
  the case when the operations act on exactly the indices \<open>[0, m)\<close>). If moreover
  every index of \<open>[m, n)\<close> lies in a register of the qubit register table (whose keys
  are distinct, as those of a \<open>std::map\<close> are), then \<open>stripTrailingIdleQubits\<close> returns
  normally, the qubit count is \<open>m\<close>, both permutations have lost exactly the keys of
  \<open>[m, n)\<close> and every index below \<open>m\<close>, idle or not, keeps its entries, and every
  operation has been told the width \<open>m\<close>.
\<close>

theorem stripTrailingIdleQubits_trims:
  assumes "0 < m" and "m \<le> nqubits qc"
    and "\<exists>op \<in> set (ops qc). actsOn op (m - 1)"
    and "\<forall>i. m \<le> i \<and> i < nqubits qc \<longrightarrow> (\<forall>op \<in> set (ops qc). \<not> actsOn op i)"
    and "\<forall>i. m \<le> i \<and> i < nqubits qc \<longrightarrow> inRegister (qregs qc) i"
    and "distinct (map fst (qregs qc))"
  shows "\<exists>qc'. stripTrailingIdleQubits actsOn setNqubits qc = Inr qc'
      \<and> nqubits qc' = m
      \<and> inputPermutation qc'
          = (\<lambda>k. if m \<le> k \<and> k < nqubits qc then None else inputPermutation qc k)
      \<and> outputPermutation qc'
          = (\<lambda>k. if m \<le> k \<and> k < nqubits qc then None else outputPermutation qc k)
      \<and> ops qc' = map (setNqubits m) (ops qc)"
  unfolding stripTrailingIdleQubits_def
proof (rule strip_loop_correct)
  show "nqubits qc = nqubits qc" ..
  show "\<not> isIdleQubit actsOn qc (m - 1)"
    using assms(3) by (simp add: isIdleQubit_def isIdleQubit_loop_iff)
  show "\<forall>i. m \<le> i \<and> i < nqubits qc \<longrightarrow> isIdleQubit actsOn qc i"
    using assms(4) by (simp add: isIdleQubit_def isIdleQubit_loop_iff)
qed (use assms in simp_all)

theorem stripTrailingIdleQubits_trims_witness:
  "\<exists>qc'. stripTrailingIdleQubits (\<lambda>op i. op = i) (\<lambda>n op. op) qc_slack = Inr qc'
      \<and> nqubits qc' = 3
      \<and> inputPermutation qc' = [0 \<mapsto> 0, 1 \<mapsto> 1, 2 \<mapsto> 2]
      \<and> outputPermutation qc' = [0 \<mapsto> 0, 1 \<mapsto> 1, 2 \<mapsto> 2]
      \<and> ops qc' = [0, 2]"
proof -
  have "\<exists>qc'. stripTrailingIdleQubits (\<lambda>op i. op = i) (\<lambda>n op. op) qc_slack = Inr qc'
      \<and> nqubits qc' = 3
      \<and> inputPermutation qc'
          = (\<lambda>k. if 3 \<le> k \<and> k < nqubits qc_slack then None else inputPermutation qc_slack k)
      \<and> outputPermutation qc'
          = (\<lambda>k. if 3 \<le> k \<and> k < nqubits qc_slack then None else outputPermutation qc_slack k)
      \<and> ops qc' = map ((\<lambda>n op. op) 3) (ops qc_slack)"
  proof (rule stripTrailingIdleQubits_trims)
    show "\<forall>i. 3 \<le> i \<and> i < nqubits qc_slack \<longrightarrow> inRegister (qregs qc_slack) i"
      by (auto simp: qc_slack_def inRegister_def)
  qed (auto simp: qc_slack_def)
  then show ?thesis
    by (auto simp: qc_slack_def fun_eq_iff)
qed

text \<open>
  Without the registers the claim fails: a circuit of two qubits with no register (as
  \<open>importGRCS\<close> leaves the table) and one operation on qubit 0 has its operations on
  exactly \<open>[0, 1)\<close>, and \<open>stripTrailingIdleQubits\<close> ends in \<open>exit(1)\<close>, inside
  \<open>getQubitRegister\<close>.
\<close>

theorem stripTrailingIdleQubits_trims_counterexample:
  "nqubits qc_noregs = 2 \<and> ops qc_noregs = [0] \<and> qregs qc_noregs = []
   \<and> (\<forall>i. (\<exists>op \<in> set (ops qc_noregs). op = i) = (i < 1))
   \<and> stripTrailingIdleQubits (\<lambda>op i. op = i) (\<lambda>n op. op) qc_noregs = Inl (Exit 1)"
  by (auto simp: qc_noregs_def stripTrailingIdleQubits_def isIdleQubit_def perm_erase_def
      numeral_2_eq_2)

section \<open>The fold of buildFunctionality and simulate\<close>









section \<open>Qiskit bridge: helper arguments of the multi-controlled X\<close>

lemma py_pop_take:
  "py_pop n xs = (if n \<le> length xs then Inr (take (length xs - n) xs) else Inl IndexError)"
proof (induction n arbitrary: xs)
  case 0
  then show ?case by simp
next
  case (Suc n)
  show ?case
  proof (cases "xs = []")
    case True
    then show ?thesis by simp
  next
    case False
    have "take (length xs - Suc n) (butlast xs) = take (length xs - Suc n) xs"
      using False by (simp add: take_butlast)
    moreover have "length (butlast xs) = length xs - 1" by simp
    moreover have "(n \<le> length xs - 1) = (Suc n \<le> length xs)"
      using False by (cases xs) auto
    ultimately show ?thesis
      using False Suc [of "butlast xs"] by simp
  qed
qed

lemma unat_mcx_vchain_ncontrols:
  "unat (mcx_vchain_ncontrols qargs) = (length qargs mod 65536 + 1) div 2"
proof -
  have "(length qargs mod 65536 + 1) div 2 < 65536" by arith
  then show ?thesis
    by (simp add: mcx_vchain_ncontrols_def mcx_vchain_size_def unat_of_nat)
qed

lemma mcx_vchain_pops_eq:
  "mcx_vchain_pops qargs = (length qargs mod 65536 + 1) div 2 - 2"
  by (simp add: mcx_vchain_pops_def unat_mcx_vchain_ncontrols)

lemma mcx_vchain_pops_le: "mcx_vchain_pops qargs \<le> length qargs"
proof -
  have "length qargs mod 65536 \<le> length qargs" by simp
  then show ?thesis unfolding mcx_vchain_pops_eq by arith
qed

lemma in_native_recursive: "''mcx_recursive'' \<in> set nativelySupportedGates"
  by (simp add: nativelySupportedGates_def)

lemma in_native_vchain: "''mcx_vchain'' \<in> set nativelySupportedGates"
  by (simp add: nativelySupportedGates_def)

text \<open>
  Claim C7, amended. An \<open>mcx_recursive\<close> instruction is translated as the
  multi-controlled X on its arguments without the last one exactly when it has more than
  five arguments, and on all its arguments otherwise. For an \<open>mcx_vchain\<close> instruction
  the control count that the source computes is \<open>(s + 1) div 2\<close>, that is
  \<open>\<lfloor>(s + 1) / 2\<rfloor>\<close>, where \<open>s\<close> is the argument count as the \<open>unsigned short\<close> holds
  it (the count modulo \<open>2^16\<close>); the number of trailing arguments dropped is that control
  count minus 2, and none when the count is below 2; the multi-controlled X is emitted
  on the arguments that remain.
\<close>

theorem mcx_helper_arguments:
  "emplaceQiskitOperation getQ getC (Instruction ''mcx_recursive'' ips defn) qargs cargs params qc
     = addQiskitOperation getQ X (if 5 < length qargs then butlast qargs else qargs) params qc
   \<and> emplaceQiskitOperation getQ getC (Instruction ''mcx_vchain'' ips defn) qargs cargs params qc
     = addQiskitOperation getQ X (take (length qargs - mcx_vchain_pops qargs) qargs) params qc
   \<and> unat (mcx_vchain_ncontrols qargs) = (length qargs mod 65536 + 1) div 2
   \<and> mcx_vchain_pops qargs = unat (mcx_vchain_ncontrols qargs) - 2"
proof (intro conjI)
  show "emplaceQiskitOperation getQ getC (Instruction ''mcx_recursive'' ips defn) qargs cargs params qc
     = addQiskitOperation getQ X (if 5 < length qargs then butlast qargs else qargs) params qc"
    using in_native_recursive by (auto simp: butlast_conv_take)
  show "emplaceQiskitOperation getQ getC (Instruction ''mcx_vchain'' ips defn) qargs cargs params qc
     = addQiskitOperation getQ X (take (length qargs - mcx_vchain_pops qargs) qargs) params qc"
    using in_native_vchain mcx_vchain_pops_le [of qargs] by (simp add: py_pop_take)
  show "unat (mcx_vchain_ncontrols qargs) = (length qargs mod 65536 + 1) div 2"
    by (rule unat_mcx_vchain_ncontrols)
  show "mcx_vchain_pops qargs = unat (mcx_vchain_ncontrols qargs) - 2"
    by (simp add: mcx_vchain_pops_eq unat_mcx_vchain_ncontrols)
qed

theorem mcx_helper_arguments_witness:
  "emplaceQiskitOperation getIndexFromQubitRegister getIndexFromClassicalRegister
     (Instruction ''mcx_recursive'' [] None)
     [Bit ''q'' 0, Bit ''q'' 1, Bit ''q'' 2, Bit ''q'' 3, Bit ''q'' 4, Bit ''q'' 5] [] [] qc_q
     = Inr (emplace_back
         (StandardOperation 8 [Control 0 pos, Control 1 pos, Control 2 pos, Control 3 pos] [4] X
            [Value 0, Value 0, Value 0]) qc_q)
   \<and> emplaceQiskitOperation getIndexFromQubitRegister getIndexFromClassicalRegister
     (Instruction ''mcx_vchain'' [] None)
     [Bit ''q'' 0, Bit ''q'' 1, Bit ''q'' 2, Bit ''q'' 3, Bit ''q'' 4, Bit ''q'' 5, Bit ''q'' 6]
     [] [] qc_q
     = Inr (emplace_back
         (StandardOperation 8 [Control 0 pos, Control 1 pos, Control 2 pos, Control 3 pos] [4] X
            [Value 0, Value 0, Value 0]) qc_q)
   \<and> unat (mcx_vchain_ncontrols
        [Bit ''q'' 0, Bit ''q'' 1, Bit ''q'' 2, Bit ''q'' 3, Bit ''q'' 4, Bit ''q'' 5, Bit ''q'' 6]) = 4"
proof -
  note r = mcx_helper_arguments [of getIndexFromQubitRegister getIndexFromClassicalRegister "[]" None
      "[Bit ''q'' 0, Bit ''q'' 1, Bit ''q'' 2, Bit ''q'' 3, Bit ''q'' 4, Bit ''q'' 5]" "[]" "[]" qc_q]
  note v = mcx_helper_arguments [of getIndexFromQubitRegister getIndexFromClassicalRegister "[]" None
      "[Bit ''q'' 0, Bit ''q'' 1, Bit ''q'' 2, Bit ''q'' 3, Bit ''q'' 4, Bit ''q'' 5, Bit ''q'' 6]"
      "[]" "[]" qc_q]
  have q: "addQiskitOperation getIndexFromQubitRegister X
       [Bit ''q'' 0, Bit ''q'' 1, Bit ''q'' 2, Bit ''q'' 3, Bit ''q'' 4] [] qc_q
     = Inr (emplace_back
         (StandardOperation 8 [Control 0 pos, Control 1 pos, Control 2 pos, Control 3 pos] [4] X
            [Value 0, Value 0, Value 0]) qc_q)"
    by (simp add: addQiskitOperation_def getIndexFromQubitRegister_def qc_q_def)
      (simp add: numeral_2_eq_2)
  have p: "mcx_vchain_pops
      [Bit ''q'' 0, Bit ''q'' 1, Bit ''q'' 2, Bit ''q'' 3, Bit ''q'' 4, Bit ''q'' 5, Bit ''q'' 6] = 2"
    using v by simp
  have 1: "emplaceQiskitOperation getIndexFromQubitRegister getIndexFromClassicalRegister
     (Instruction ''mcx_recursive'' [] None)
     [Bit ''q'' 0, Bit ''q'' 1, Bit ''q'' 2, Bit ''q'' 3, Bit ''q'' 4, Bit ''q'' 5] [] [] qc_q
     = addQiskitOperation getIndexFromQubitRegister X
       [Bit ''q'' 0, Bit ''q'' 1, Bit ''q'' 2, Bit ''q'' 3, Bit ''q'' 4] [] qc_q"
    unfolding conjunct1 [OF r] by simp
  have 2: "emplaceQiskitOperation getIndexFromQubitRegister getIndexFromClassicalRegister
     (Instruction ''mcx_vchain'' [] None)
     [Bit ''q'' 0, Bit ''q'' 1, Bit ''q'' 2, Bit ''q'' 3, Bit ''q'' 4, Bit ''q'' 5, Bit ''q'' 6]
     [] [] qc_q
     = addQiskitOperation getIndexFromQubitRegister X
       [Bit ''q'' 0, Bit ''q'' 1, Bit ''q'' 2, Bit ''q'' 3, Bit ''q'' 4] [] qc_q"
    unfolding conjunct1 [OF conjunct2 [OF v]] p by simp
  have 3: "unat (mcx_vchain_ncontrols
        [Bit ''q'' 0, Bit ''q'' 1, Bit ''q'' 2, Bit ''q'' 3, Bit ''q'' 4, Bit ''q'' 5, Bit ''q'' 6]) = 4"
    using v by simp
  show ?thesis unfolding 1 2 q 3 by simp
qed

text \<open>
  The claim's \<open>\<lceil>(argCount + 1) / 2\<rceil>\<close> differs from the source's integer division at
  every even count: with two arguments (one control and the target) it is 2 where the
  source computes 1; with four arguments it is 3, so one argument would be dropped,
  while the source computes 2, drops none and emits the X with three controls.
\<close>

theorem mcx_helper_arguments_counterexample:
  "nat \<lceil>(real (length [Bit ''q'' 0, Bit ''q'' 1]) + 1) / 2\<rceil> = 2
   \<and> unat (mcx_vchain_ncontrols [Bit ''q'' 0, Bit ''q'' 1]) = 1
   \<and> nat \<lceil>(real (length [Bit ''q'' 0, Bit ''q'' 1, Bit ''q'' 2, Bit ''q'' 3]) + 1) / 2\<rceil> = 3
   \<and> unat (mcx_vchain_ncontrols [Bit ''q'' 0, Bit ''q'' 1, Bit ''q'' 2, Bit ''q'' 3]) = 2
   \<and> mcx_vchain_pops [Bit ''q'' 0, Bit ''q'' 1, Bit ''q'' 2, Bit ''q'' 3] = 0
   \<and> emplaceQiskitOperation getIndexFromQubitRegister getIndexFromClassicalRegister
     (Instruction ''mcx_vchain'' [] None)
     [Bit ''q'' 0, Bit ''q'' 1, Bit ''q'' 2, Bit ''q'' 3] [] [] qc_q
     = Inr (emplace_back
         (StandardOperation 8 [Control 0 pos, Control 1 pos, Control 2 pos] [3] X
            [Value 0, Value 0, Value 0]) qc_q)"
  by (simp add: mcx_vchain_pops_def mcx_vchain_ncontrols_def mcx_vchain_size_def
      nativelySupportedGates_def addQiskitOperation_def getIndexFromQubitRegister_def qc_q_def)
    (simp add: numeral_2_eq_2)

section \<open>Qiskit bridge: an instruction that cannot be imported\<close>

text \<open>
  A call of the bridge only appends to the operation list: the circuit it leaves,
  returned or kept with an exception, has the operations it was given as a prefix.
\<close>

lemma result_circuit_simps [simp]:
  "result_circuit (Inl (e, qc')) = qc'" "result_circuit (Inr qc') = qc'"
  by (simp_all add: result_circuit_def)

lemma addQiskitOperation_grows:
  "\<exists>new. ops (result_circuit (addQiskitOperation getQ g qargs params qc)) = ops qc @ new"
  by (auto simp: addQiskitOperation_def emplace_back_def split: sum.splits prod.splits)

lemma addTwoTargetQiskitOperation_grows:
  "\<exists>new. ops (result_circuit (addTwoTargetQiskitOperation getQ g qargs params qc)) = ops qc @ new"
  by (auto simp: addTwoTargetQiskitOperation_def emplace_back_def split: sum.splits prod.splits)

lemma bridge_grows:
  "\<exists>new. ops (result_circuit (emplaceQiskitOperation getQ getC instruction qargs cargs params qc))
     = ops qc @ new"
  "\<exists>new. ops (result_circuit (importQiskitDefinition getQ getC defn qargs cargs qc)) = ops qc @ new"
  "\<exists>new. ops (result_circuit (importQiskitDefinition_loop getQ getC qargMap cargMap data qc))
     = ops qc @ new"
proof (induction getQ getC instruction qargs cargs params qc
    and getQ getC defn qargs cargs qc
    and getQ getC qargMap cargMap data qc
    rule: emplaceQiskitOperation_importQiskitDefinition_importQiskitDefinition_loop.induct)
  case (1 getQ getC instructionName inst_params defn qargs cargs params qc)
  show ?case
  proof (cases "instructionName = ''measure''")
    case True
    then show ?thesis
      by (auto simp: emplace_back_def split: list.splits sum.splits Bit.splits)
  next
    case nm: False
    show ?thesis
    proof (cases "instructionName = ''barrier''")
      case True
      with nm show ?thesis
        by (auto simp: emplace_back_def split: sum.splits)
    next
      case nb: False
      show ?thesis
      proof (cases "instructionName \<in> set nativelySupportedGates")
        case True
        with nm nb show ?thesis
          by (simp add: addQiskitOperation_grows addTwoTargetQiskitOperation_grows
              split: sum.splits)
      next
        case False
        from "1.IH" [OF nm nb False] obtain new where
          n: "ops (result_circuit (importQiskitDefinition getQ getC defn qargs cargs qc)) = ops qc @ new"
          by blast
        from nm nb False n show ?thesis
          by (auto split: sum.splits failure.splits prod.splits)
      qed
    qed
  qed
next
  case (2 getQ getC qargs cargs qc)
  show ?case by simp
next
  case (3 getQ getC def_qubits def_clbits data qargs cargs qc)
  then show ?case
    by (auto split: sum.splits)
next
  case (4 getQ getC qargMap cargMap qc)
  show ?case by simp
next
  case (5 getQ getC qargMap cargMap instruction inst_qargs inst_cargs rest qc)
  show ?case
  proof (cases "map_args qargMap inst_qargs")
    case (Inl e)
    then show ?thesis by simp
  next
    case q: (Inr b)
    show ?thesis
    proof (cases "map_args cargMap inst_cargs")
      case (Inl e)
      with q show ?thesis by simp
    next
      case c: (Inr ba)
      obtain x1 x2 x3 where i: "instruction = Instruction x1 x2 x3"
        by (cases instruction)
      from "5.IH"(1) [OF q c i] obtain new1 where
        n1: "ops (result_circuit (emplaceQiskitOperation getQ getC instruction b ba x2 qc)) = ops qc @ new1"
        by blast
      show ?thesis
      proof (cases "emplaceQiskitOperation getQ getC instruction b ba x2 qc")
        case (Inl f)
        obtain e qc' where f: "f = (e, qc')" by (cases f)
        from Inl f n1 q c i show ?thesis by simp
      next
        case (Inr bb)
        from "5.IH"(2) [OF q c i Inr] obtain new2 where
          n2: "ops (result_circuit (importQiskitDefinition_loop getQ getC qargMap cargMap rest bb))
                = ops bb @ new2"
          by blast
        from Inr n1 have "ops bb = ops qc @ new1" by simp
        with n2 Inr q c i show ?thesis by simp
      qed
    qed
  qed
qed

text \<open>
  The definition \<open>failing_definition\<close> is left by \<open>KeyError\<close> at its second instruction,
  after the Hadamard has been appended.
\<close>

lemma failing_run:
  "importQiskitDefinition getIndexFromQubitRegister getIndexFromClassicalRegister
       (Some failing_definition) [Bit ''q'' 2, Bit ''q'' 5] [] qc_q
     = Inl (ErrorAlreadySet KeyError,
            qc_q\<lparr> ops := [StandardOperation 8 [] [2] H [Value 0, Value 0, Value 0]] \<rparr>)"
  by (simp add: failing_definition_def nativelySupportedGates_def addQiskitOperation_def
      getIndexFromQubitRegister_def emplace_back_def qc_q_def)

text \<open>
  Claim C8, amended. Let the name of an instruction be neither \<open>measure\<close> nor
  \<open>barrier\<close> nor in \<open>nativelySupportedGates\<close>, so that \<open>emplaceQiskitOperation\<close>
  imports its definition inside the \<open>try\<close> block.

  \<^item> When the instruction has no definition, the call returns normally; the circuit it
    returns differs from the one it was given only by the two lines reporting the
    failure on \<open>std::cerr\<close>, so the operation list is unchanged; and the loop of
    \<open>importQiskitDefinition\<close> that meets such an instruction (its arguments being mapped)
    goes on with the instructions after it from that circuit.

  \<^item> When the import of its definition is left by a Python exception \<open>e\<close> with the
    circuit \<open>qc'\<close>, the call returns normally as well, with \<open>qc'\<close> and the two lines
    reporting \<open>e\<close>, and the loop goes on from there; the operations appended before the
    exception stay: the operation list of \<open>qc'\<close> is that of \<open>qc\<close> followed by them.
\<close>

theorem unsupported_instruction_skipped:
  assumes "instructionName \<noteq> ''measure''" and "instructionName \<noteq> ''barrier''"
    and "instructionName \<notin> set nativelySupportedGates"
  shows "emplaceQiskitOperation getQ getC (Instruction instructionName ips None) qargs cargs params qc
           = Inr (qc\<lparr> cerr := cerr qc @ [FailedToImportInstruction instructionName, What AttributeError] \<rparr>)
       \<and> (map_args qargMap inst_qargs = Inr mapped_qargs \<and> map_args cargMap inst_cargs = Inr mapped_cargs
           \<longrightarrow> importQiskitDefinition_loop getQ getC qargMap cargMap
                 ((Instruction instructionName ips None, inst_qargs, inst_cargs) # rest) qc
               = importQiskitDefinition_loop getQ getC qargMap cargMap rest
                   (qc\<lparr> cerr := cerr qc @ [FailedToImportInstruction instructionName, What AttributeError] \<rparr>))
       \<and> (importQiskitDefinition getQ getC defn qargs cargs qc = Inl (ErrorAlreadySet e, qc')
           \<longrightarrow> emplaceQiskitOperation getQ getC (Instruction instructionName ips defn) qargs cargs params qc
                 = Inr (qc'\<lparr> cerr := cerr qc' @ [FailedToImportInstruction instructionName, What e] \<rparr>)
               \<and> (\<exists>new. ops qc' = ops qc @ new))
       \<and> (map_args qargMap inst_qargs = Inr mapped_qargs \<and> map_args cargMap inst_cargs = Inr mapped_cargs
            \<and> importQiskitDefinition getQ getC defn mapped_qargs mapped_cargs qc
                = Inl (ErrorAlreadySet e, qc')
           \<longrightarrow> importQiskitDefinition_loop getQ getC qargMap cargMap
                 ((Instruction instructionName ips defn, inst_qargs, inst_cargs) # rest) qc
               = importQiskitDefinition_loop getQ getC qargMap cargMap rest
                   (qc'\<lparr> cerr := cerr qc' @ [FailedToImportInstruction instructionName, What e] \<rparr>))"
proof (intro conjI impI)
  show "emplaceQiskitOperation getQ getC (Instruction instructionName ips None) qargs cargs params qc
           = Inr (qc\<lparr> cerr := cerr qc @ [FailedToImportInstruction instructionName, What AttributeError] \<rparr>)"
    using assms by simp
next
  assume "map_args qargMap inst_qargs = Inr mapped_qargs \<and> map_args cargMap inst_cargs = Inr mapped_cargs"
  with assms show "importQiskitDefinition_loop getQ getC qargMap cargMap
                 ((Instruction instructionName ips None, inst_qargs, inst_cargs) # rest) qc
               = importQiskitDefinition_loop getQ getC qargMap cargMap rest
                   (qc\<lparr> cerr := cerr qc @ [FailedToImportInstruction instructionName, What AttributeError] \<rparr>)"
    by simp
next
  assume f: "importQiskitDefinition getQ getC defn qargs cargs qc = Inl (ErrorAlreadySet e, qc')"
  with assms show "emplaceQiskitOperation getQ getC (Instruction instructionName ips defn) qargs cargs params qc
                 = Inr (qc'\<lparr> cerr := cerr qc' @ [FailedToImportInstruction instructionName, What e] \<rparr>)"
    by simp
  from bridge_grows(2) [of getQ getC defn qargs cargs qc] f
  show "\<exists>new. ops qc' = ops qc @ new" by simp
next
  assume "map_args qargMap inst_qargs = Inr mapped_qargs \<and> map_args cargMap inst_cargs = Inr mapped_cargs
            \<and> importQiskitDefinition getQ getC defn mapped_qargs mapped_cargs qc
                = Inl (ErrorAlreadySet e, qc')"
  with assms show "importQiskitDefinition_loop getQ getC qargMap cargMap
                 ((Instruction instructionName ips defn, inst_qargs, inst_cargs) # rest) qc
               = importQiskitDefinition_loop getQ getC qargMap cargMap rest
                   (qc'\<lparr> cerr := cerr qc' @ [FailedToImportInstruction instructionName, What e] \<rparr>)"
    by simp
qed

theorem unsupported_instruction_skipped_witness:
  "emplaceQiskitOperation getIndexFromQubitRegister getIndexFromClassicalRegister
     (Instruction ''mystery'' [] None) [Bit ''q'' 0, Bit ''q'' 1] [] [] qc_q
     = Inr (qc_q\<lparr> cerr := [FailedToImportInstruction ''mystery'', What AttributeError] \<rparr>)
   \<and> importQiskitDefinition_loop getIndexFromQubitRegister getIndexFromClassicalRegister
       [Bit ''d'' 0 \<mapsto> Bit ''q'' 2, Bit ''d'' 1 \<mapsto> Bit ''q'' 5] Map.empty unsupported_example qc_q
     = Inr (qc_q\<lparr> ops := [StandardOperation 8 [] [2] H [Value 0, Value 0, Value 0],
                           StandardOperation 8 [] [5] X [Value 0, Value 0, Value 0]],
                  cerr := [FailedToImportInstruction ''mystery'', What AttributeError] \<rparr>)
   \<and> emplaceQiskitOperation getIndexFromQubitRegister getIndexFromClassicalRegister
       (Instruction ''mystery'' [] (Some failing_definition)) [Bit ''q'' 2, Bit ''q'' 5] [] [] qc_q
     = Inr (qc_q\<lparr> ops := [StandardOperation 8 [] [2] H [Value 0, Value 0, Value 0]],
                  cerr := [FailedToImportInstruction ''mystery'', What KeyError] \<rparr>)"
proof -
  have n: "''mystery'' \<noteq> ''measure''" "''mystery'' \<noteq> ''barrier''"
    "''mystery'' \<notin> set nativelySupportedGates"
    by (simp_all add: nativelySupportedGates_def)
  note u = unsupported_instruction_skipped [OF n]
  have 1: "emplaceQiskitOperation getIndexFromQubitRegister getIndexFromClassicalRegister
     (Instruction ''mystery'' [] None) [Bit ''q'' 0, Bit ''q'' 1] [] [] qc_q
     = Inr (qc_q\<lparr> cerr := [FailedToImportInstruction ''mystery'', What AttributeError] \<rparr>)"
    using u [THEN conjunct1, of getIndexFromQubitRegister getIndexFromClassicalRegister "[]"
        "[Bit ''q'' 0, Bit ''q'' 1]" "[]" "[]" qc_q]
    by (simp add: qc_q_def)
  have h: "''h'' \<in> set nativelySupportedGates" "''x'' \<in> set nativelySupportedGates"
    by (simp_all add: nativelySupportedGates_def)
  have 2: "importQiskitDefinition_loop getIndexFromQubitRegister getIndexFromClassicalRegister
       [Bit ''d'' 0 \<mapsto> Bit ''q'' 2, Bit ''d'' 1 \<mapsto> Bit ''q'' 5] Map.empty unsupported_example qc_q
     = Inr (qc_q\<lparr> ops := [StandardOperation 8 [] [2] H [Value 0, Value 0, Value 0],
                           StandardOperation 8 [] [5] X [Value 0, Value 0, Value 0]],
                  cerr := [FailedToImportInstruction ''mystery'', What AttributeError] \<rparr>)"
    using h n
    by (simp add: unsupported_example_def addQiskitOperation_def
        getIndexFromQubitRegister_def emplace_back_def qc_q_def)
  have 3: "emplaceQiskitOperation getIndexFromQubitRegister getIndexFromClassicalRegister
       (Instruction ''mystery'' [] (Some failing_definition)) [Bit ''q'' 2, Bit ''q'' 5] [] [] qc_q
     = Inr (qc_q\<lparr> ops := [StandardOperation 8 [] [2] H [Value 0, Value 0, Value 0]],
                  cerr := [FailedToImportInstruction ''mystery'', What KeyError] \<rparr>)"
    using u [THEN conjunct2, THEN conjunct2, THEN conjunct1, THEN mp, OF failing_run,
        THEN conjunct1, of "[]" "[]"]
    by (simp add: qc_q_def)
  from 1 2 3 show ?thesis by simp
qed

text \<open>
  An instruction that is in no table and whose definition cannot be used: the import of
  \<open>failing_definition\<close> appends the Hadamard and is then left by \<open>KeyError\<close>. The failure
  is reported and the call returns, but the operation list, empty before, now holds the
  Hadamard: it is not left unchanged by the instruction.
\<close>

theorem unsupported_instruction_skipped_counterexample:
  "''mystery'' \<noteq> ''measure'' \<and> ''mystery'' \<noteq> ''barrier''
   \<and> ''mystery'' \<notin> set nativelySupportedGates
   \<and> emplaceQiskitOperation getIndexFromQubitRegister getIndexFromClassicalRegister
       (Instruction ''mystery'' [] (Some failing_definition)) [Bit ''q'' 2, Bit ''q'' 5] [] [] qc_q
     = Inr (qc_q\<lparr> ops := [StandardOperation 8 [] [2] H [Value 0, Value 0, Value 0]],
                  cerr := [FailedToImportInstruction ''mystery'', What KeyError] \<rparr>)
   \<and> ops qc_q = []"
  by (simp add: failing_definition_def nativelySupportedGates_def addQiskitOperation_def
      getIndexFromQubitRegister_def emplace_back_def qc_q_def)

section \<open>Running the importers on a text\<close>

text \<open>The definitions that a run of an importer on a concrete text unfolds.\<close>

lemmas stream_defs = extract_string_def ignore_line_def getline_def extract_unsigned_def good_def
  isspace_def is_digit_def digits_value_def digit_value_def toupper_def tolower_def istringstream_def

text \<open>The extraction of an unsigned number with a sign, out of range, and without digits.\<close>

lemma extract_unsigned_signed:
  "extract_unsigned 65535 (istringstream ''+2'')
     = (Stored 2, \<lparr> buffer = [], eofbit = True, failbit = False \<rparr>)"
  "extract_unsigned 65535 (istringstream '' -1 a'')
     = (Stored 65535, \<lparr> buffer = '' a'', eofbit = False, failbit = False \<rparr>)"
  "extract_unsigned 65535 (istringstream ''70000'')
     = (Stored 65535, \<lparr> buffer = [], eofbit = True, failbit = True \<rparr>)"
  "extract_unsigned 65535 (istringstream ''-a'')
     = (Stored 0, \<lparr> buffer = ''a'', eofbit = False, failbit = True \<rparr>)"
  by (simp_all add: extract_unsigned_def good_def istringstream_def isspace_def is_digit_def
      digits_value_def digit_value_def Let_def)

lemmas regex_defs = gateRegex_match_def match_identifier_def parse_literal_def strip_sign_def
  stold_def stoi_def

lemma read_variables_numeral:
  "read_variables (numeral k) i variable inp qc
     = read_variables (Suc (pred_numeral k)) i variable inp qc"
  by (simp add: numeral_eq_Suc)

lemma read_controls_numeral:
  "read_controls (numeral k) iss regs controls
     = read_controls (Suc (pred_numeral k)) iss regs controls"
  by (simp add: numeral_eq_Suc)

lemmas real_defs = read_variables_numeral read_controls_numeral importReal_def readRealGate_def parseRealGate_def regex_defs stream_defs
  Let_def updateMaxControls_def emplaceRealGate_def nearbyint_def emplace_back_def perm_insert_def


lemma name_of_c_real:
  "substr (find_last_of (CHR ''/'') ''c.real'' + 1)
     (find_last_of (CHR ''.'') ''c.real'' - find_last_of (CHR ''/'') ''c.real'' - 1) ''c.real''
   = Inr ''c''"
  by (simp add: find_last_of_def substr_def)


section \<open>Permutations after an import\<close>

text \<open>
  Claim C1 holds for two of the three importers: \<open>importOpenQASM\<close> and \<open>importGRCS\<close>
  seed both permutations with the identity over all qubits after they have read the
  text, so that from the empty circuit both permutations are the identity on
  \<open>[0, nqubits)\<close>.
\<close>

lemma importOpenQASM_statement_permutations:
  "importOpenQASM_statement setNqubits stmt qc = Inr (qc', pending) \<Longrightarrow>
     inputPermutation qc' = inputPermutation qc \<and> outputPermutation qc' = outputPermutation qc"
  by (cases stmt) (auto simp: emplace_back_def split: option.splits)

lemma importOpenQASM_loop_permutations:
  "importOpenQASM_loop setNqubits stmts qc = Inr qc' \<Longrightarrow>
     inputPermutation qc' = inputPermutation qc \<and> outputPermutation qc' = outputPermutation qc"
proof (induction stmts arbitrary: qc)
  case Nil
  then show ?case by simp
next
  case (Cons stmt rest)
  then show ?case
    by (auto simp: emplace_back_def split: sum.splits option.splits qasm_statement.splits
        dest!: importOpenQASM_statement_permutations)
qed

lemma importOpenQASM_identity:
  assumes "importOpenQASM setNqubits stmts emptyQC = Inr qc'"
  shows "inputPermutation qc' = (\<lambda>k. if k < nqubits qc' then Some k else None)
       \<and> outputPermutation qc' = (\<lambda>k. if k < nqubits qc' then Some k else None)"
proof -
  from assms obtain qc1 where l: "importOpenQASM_loop setNqubits stmts emptyQC = Inr qc1"
    and q: "qc' = qc1\<lparr> inputPermutation := seed_identity 0 (nqubits qc1) (inputPermutation qc1),
                       outputPermutation := seed_identity 0 (nqubits qc1) (outputPermutation qc1) \<rparr>"
    by (auto simp: importOpenQASM_def split: if_splits sum.splits)
  from importOpenQASM_loop_permutations [OF l]
  have "inputPermutation qc1 = Map.empty" "outputPermutation qc1 = Map.empty"
    by (simp_all add: emptyQC_def)
  with q show ?thesis
    by (auto simp: fun_eq_iff seed_identity_apply)
qed

lemma importGRCS_line_fields:
  "importGRCS_line line identifier control target qc = Inr (identifier', control', target', qc') \<Longrightarrow>
     inputPermutation qc' = inputPermutation qc \<and> outputPermutation qc' = outputPermutation qc
     \<and> nqubits qc' = nqubits qc"
  by (auto simp: importGRCS_line_def emplace_back_def Let_def split: prod.splits if_splits)

lemma importGRCS_loop_fields:
  "importGRCS_loop idf ctl tgt inp qc = Inr (inp', qc') \<Longrightarrow>
     inputPermutation qc' = inputPermutation qc \<and> outputPermutation qc' = outputPermutation qc
     \<and> nqubits qc' = nqubits qc"
proof (induction idf ctl tgt inp qc rule: importGRCS_loop.induct)
  case (1 idf ctl tgt inp qc)
  show ?case
  proof (cases "getline inp")
    case (Pair r inp1)
    show ?thesis
    proof (cases r)
      case None
      with Pair "1.prems" show ?thesis by simp
    next
      case (Some line)
      show ?thesis
      proof (cases "line = []")
        case True
        with Pair Some "1.prems" "1.IH"(1) [of r inp1 line] show ?thesis by simp
      next
        case False
        with Pair Some "1.prems"
        obtain i2 c2 t2 qc2 where
          l: "importGRCS_line line idf ctl tgt qc = Inr (i2, c2, t2, qc2)"
          and r: "importGRCS_loop i2 c2 t2 inp1 qc2 = Inr (inp', qc')"
          by (auto split: sum.splits)
        from "1.IH"(2) [OF Pair [symmetric] Some False l refl refl refl] r
        have "inputPermutation qc' = inputPermutation qc2 \<and> outputPermutation qc' = outputPermutation qc2
          \<and> nqubits qc' = nqubits qc2" by simp
        with importGRCS_line_fields [OF l] show ?thesis by simp
      qed
    qed
  qed
qed

lemma importGRCS_identity:
  assumes "importGRCS inp emptyQC = Inr (inp', qc')"
  shows "inputPermutation qc' = (\<lambda>k. if k < nqubits qc' then Some k else None)
       \<and> outputPermutation qc' = (\<lambda>k. if k < nqubits qc' then Some k else None)"
proof -
  obtain v inp1 where e: "extract_unsigned 65535 inp = (v, inp1)"
    by (cases "extract_unsigned 65535 inp")
  define qc0 :: "Operation QuantumComputation"
    where "qc0 = emptyQC\<lparr> nqubits := (case v of Unchanged \<Rightarrow> nqubits (emptyQC :: Operation QuantumComputation) | Stored n \<Rightarrow> n) \<rparr>"
  from assms e obtain qc2 where l: "importGRCS_loop [] 0 0 inp1 qc0 = Inr (inp', qc2)"
    and q: "qc' = qc2\<lparr> inputPermutation := seed_identity 0 (nqubits qc2) (inputPermutation qc2),
                       outputPermutation := seed_identity 0 (nqubits qc2) (outputPermutation qc2) \<rparr>"
    by (auto simp: importGRCS_def qc0_def split: sum.splits)
  from importGRCS_loop_fields [OF l]
  have "inputPermutation qc2 = Map.empty" "outputPermutation qc2 = Map.empty"
    by (simp_all add: qc0_def emptyQC_def)
  with q show ?thesis
    by (auto simp: fun_eq_iff seed_identity_apply)
qed

text \<open>
  Claim C1 fails for the REAL importer, which seeds the permutations only inside the
  \<open>.VARIABLES\<close> command. The file \<open>c.real\<close> with the three lines \<open>.numvars 2\<close>,
  \<open>.begin\<close>, \<open>.end\<close> is imported into the empty circuit without an error: the circuit
  has two qubits and both permutations are empty.
\<close>

theorem importReal_without_variables:
  "import_format 3 identifierMap TOLERANCE setNqubits
     [''c.real'' \<mapsto> ''.numvars 2\<newline>.begin\<newline>.end\<newline>''] parser ''c.real'' Real_format emptyQC
   = Some (Inr (emptyQC\<lparr> name := ''c'', nqubits := 2, nclassics := 2 \<rparr>))
   \<and> nqubits (emptyQC\<lparr> name := ''c'', nqubits := 2, nclassics := 2 \<rparr> :: Operation QuantumComputation) = 2
   \<and> inputPermutation (emptyQC\<lparr> name := ''c'', nqubits := 2, nclassics := 2 \<rparr> :: Operation QuantumComputation) = Map.empty
   \<and> outputPermutation (emptyQC\<lparr> name := ''c'', nqubits := 2, nclassics := 2 \<rparr> :: Operation QuantumComputation) = Map.empty"
  by (simp add: import_format_def name_of_c_real importReal_def numeral_3_eq_3 stream_defs
      emptyQC_def Let_def)

section \<open>max_controls after an import\<close>




















section \<open>REAL import: RZ and U1\<close>





text \<open>The same on a whole gate line: \<open>rz2:4 a b\<close> emplaces a \<open>T\<close> on \<open>b\<close> controlled by \<open>a\<close>.\<close>

lemma readRealGate_rz4:
  "readRealGate identifierMap_example TOLERANCE_example ''rz2:4''
     (istringstream '' a b\<newline>.end'') qc_ab
   = Inr (istringstream ''.end'',
       qc_ab\<lparr> ops := [StandardOperation 2 [Control 0 pos] [1] T []], max_controls := 1 \<rparr>)"
  by (auto simp: real_defs identifierMap_example_def qc_ab_def TOLERANCE_example_def)

end
